theory Spec2Isabelle
  imports Main
begin

section \<open>Exceptions\<close>

text \<open>
  Every exception class that \<^verbatim>\<open>parliament/core/models.py\<close> raises, or lets through from
  Django and \<^verbatim>\<open>requests\<close>, is one constructor. The bare \<^verbatim>\<open>Exception(...)\<close> raises of the
  source are told apart by the place that raises them.
\<close>

datatype error =
    Politician_DoesNotExist
  | Politician_MultipleObjectsReturned
  | PoliticianInfo_MultipleObjectsReturned
  | Riding_DoesNotExist
  | Riding_MultipleObjectsReturned
  | ValueError
  | Exception_party_name_taken
  | Exception_election_not_implemented
  | Exception_data_error
  | Exception_id_mismatch
  | Exception_mp_id_already_used
  | Exception_url_scheme
  | Exception_sanity_check
  | HTTPError
  | RequestException
  | TypeError

section \<open>Tables\<close>

text \<open>
  A table is the list of its rows: Django puts no uniqueness constraint on
  \<^verbatim>\<open>InternalXref\<close> or \<^verbatim>\<open>PoliticianInfo\<close>, so a row may occur twice, and the code iterates
  over rows. Foreign keys and model instances are primary keys (Django compares model
  instances by primary key); a \<^verbatim>\<open>Session\<close> key is the string \<^verbatim>\<open>id\<close> of the model.
\<close>

record internalxref =
  x_schema :: string
  x_text_value :: string
  x_int_value :: "int option"
  x_target_id :: nat

record politician =
  pol_id :: nat
  pol_name :: string
  pol_name_given :: string
  pol_name_family :: string

record politicianinfo =
  pi_politician :: nat
  pi_schema :: string
  pi_value :: string

record electedmember =
  em_politician :: nat
  em_riding :: nat
  em_party :: nat
  em_sessions :: "string list"

record riding =
  riding_id :: nat
  riding_slug :: string

record db =
  internalxref_tbl :: "internalxref list"
  politician_tbl :: "politician list"
  politicianinfo_tbl :: "politicianinfo list"
  electedmember_tbl :: "electedmember list"
  riding_tbl :: "riding list"

section \<open>The key/value rows of a politician\<close>

text \<open>\<^verbatim>\<open>self.politicianinfo_set.filter(schema=key)\<close>\<close>

definition politicianinfo_set :: "db \<Rightarrow> nat \<Rightarrow> string \<Rightarrow> politicianinfo list" where
  "politicianinfo_set d self key =
     filter (\<lambda>i. pi_politician i = self \<and> pi_schema i = key) (politicianinfo_tbl d)"

text \<open>
  \<^verbatim>\<open>Politician.set_info(key, value, overwrite=True)\<close>. The \<^verbatim>\<open>get\<close> of the source has
  three outcomes: no row (\<^verbatim>\<open>DoesNotExist\<close>, a new row is made), one row (kept when
  \<^verbatim>\<open>overwrite\<close> is false, with \<^verbatim>\<open>ValueError\<close>; updated in place otherwise) and several
  rows (\<^verbatim>\<open>MultipleObjectsReturned\<close>: logged, all of them deleted, a new row made).
  The value is the text \<^verbatim>\<open>unicode(value)\<close>.
\<close>

definition Politician_set_info ::
  "db \<Rightarrow> nat \<Rightarrow> string \<Rightarrow> string \<Rightarrow> bool \<Rightarrow> (error + unit) \<times> db" where
  "Politician_set_info d self key v overwrite =
     (case politicianinfo_set d self key of
        [] \<Rightarrow>
          (Inr (), d\<lparr>politicianinfo_tbl := politicianinfo_tbl d @
             [\<lparr>pi_politician = self, pi_schema = key, pi_value = v\<rparr>]\<rparr>)
      | [info] \<Rightarrow>
          if \<not> overwrite then (Inl ValueError, d)
          else (Inr (), d\<lparr>politicianinfo_tbl :=
             map (\<lambda>i. if pi_politician i = self \<and> pi_schema i = key
                       then i\<lparr>pi_value := v\<rparr> else i) (politicianinfo_tbl d)\<rparr>)
      | info # info' # others \<Rightarrow>
          (Inr (), d\<lparr>politicianinfo_tbl :=
             filter (\<lambda>i. \<not> (pi_politician i = self \<and> pi_schema i = key))
               (politicianinfo_tbl d) @
             [\<lparr>pi_politician = self, pi_schema = key, pi_value = v\<rparr>]\<rparr>))"

text \<open>
  \<^verbatim>\<open>Politician.set_info_multivalued(key, value)\<close> is Django's \<^verbatim>\<open>get_or_create\<close>: the row
  is made when no equal row exists, nothing happens when one exists, and the \<^verbatim>\<open>get\<close>
  inside raises when several do.
\<close>

definition Politician_set_info_multivalued ::
  "db \<Rightarrow> nat \<Rightarrow> string \<Rightarrow> string \<Rightarrow> (error + unit) \<times> db" where
  "Politician_set_info_multivalued d self key v =
     (case filter (\<lambda>i. pi_value i = v) (politicianinfo_set d self key) of
        [] \<Rightarrow>
          (Inr (), d\<lparr>politicianinfo_tbl := politicianinfo_tbl d @
             [\<lparr>pi_politician = self, pi_schema = key, pi_value = v\<rparr>]\<rparr>)
      | [info] \<Rightarrow> (Inr (), d)
      | info # info' # others \<Rightarrow> (Inl PoliticianInfo_MultipleObjectsReturned, d))"

text \<open>\<^verbatim>\<open>Politician.alternate_names()\<close>\<close>

definition alternate_names :: "db \<Rightarrow> nat \<Rightarrow> string list" where
  "alternate_names d self = map pi_value (politicianinfo_set d self ''alternate_name'')"

text \<open>
  \<^verbatim>\<open>Politician.add_alternate_name(name)\<close>. \<^verbatim>\<open>parsetools.normalizeName\<close> is not part of
  the file; it is the parameter \<open>nn\<close> of every function that calls it.
\<close>

definition Politician_add_alternate_name ::
  "(string \<Rightarrow> string) \<Rightarrow> db \<Rightarrow> nat \<Rightarrow> string \<Rightarrow> (error + unit) \<times> db" where
  "Politician_add_alternate_name nn d self name =
     (let normname = nn name in
      if normname \<notin> set (alternate_names d self)
      then Politician_set_info_multivalued d self ''alternate_name'' normname
      else (Inr (), d))"

section \<open>Text\<close>

text \<open>
  Strings are byte strings, and the model of \<^verbatim>\<open>strip()\<close> and \<^verbatim>\<open>lower()\<close> is that of
  ASCII text: \<open>strip\<close> removes the six ASCII white-space characters from both ends,
  which are also what \<^verbatim>\<open>\s\<close> matches, and \<open>lower\<close> maps \<^verbatim>\<open>A-Z\<close> to \<^verbatim>\<open>a-z\<close>. On
  Django text outside ASCII the source does more: \<^verbatim>\<open>unicode.strip()\<close> also removes
  U+00A0 and the other Unicode white space, and \<^verbatim>\<open>unicode.lower()\<close> also lowers
  capitals such as U+00C9. Every name evaluated below is ASCII, apart from the em dash
  of one riding name, which neither function touches; the general theorems hold for
  whatever these functions return. \<^verbatim>\<open>\w\<close> and \<^verbatim>\<open>\d\<close>, compiled without
  \<^verbatim>\<open>re.UNICODE\<close>, are the ASCII classes.
\<close>

definition isspace :: "char \<Rightarrow> bool" where
  "isspace c = (c \<in> set [CHR 0x09, CHR 0x0A, CHR 0x0B, CHR 0x0C, CHR 0x0D, CHR 0x20])"

definition isupper :: "char \<Rightarrow> bool" where
  "isupper c = (c \<in> set ''ABCDEFGHIJKLMNOPQRSTUVWXYZ'')"

definition isdigit :: "char \<Rightarrow> bool" where
  "isdigit c = (c \<in> set ''0123456789'')"

definition isword :: "char \<Rightarrow> bool" where
  "isword c = (c \<in> set ''abcdefghijklmnopqrstuvwxyzABCDEFGHIJKLMNOPQRSTUVWXYZ0123456789_'')"

definition lower_char :: "char \<Rightarrow> char" where
  "lower_char c =
     (case map_of (zip ''ABCDEFGHIJKLMNOPQRSTUVWXYZ'' ''abcdefghijklmnopqrstuvwxyz'') c of
        Some l \<Rightarrow> l
      | None \<Rightarrow> c)"

definition lower :: "string \<Rightarrow> string" where
  "lower s = map lower_char s"

definition strip :: "string \<Rightarrow> string" where
  "strip s = rev (dropWhile isspace (rev (dropWhile isspace s)))"

definition endswith :: "string \<Rightarrow> string \<Rightarrow> bool" where
  "endswith s suffix = (take (length suffix) (rev s) = rev suffix)"

text \<open>\<^verbatim>\<open>unicode(n)\<close> and \<^verbatim>\<open>int(s)\<close> for a natural number and a string of digits.\<close>

fun unicode_nat :: "nat \<Rightarrow> string" where
  "unicode_nat n =
     (if n < 10 then [''0123456789'' ! n]
      else unicode_nat (n div 10) @ [''0123456789'' ! (n mod 10)])"

declare unicode_nat.simps [simp del]

definition digit_value :: "char \<Rightarrow> nat" where
  "digit_value c = length (takeWhile (\<lambda>x. x \<noteq> c) ''0123456789'')"

definition int_of_digits :: "string \<Rightarrow> nat" where
  "int_of_digits s = foldl (\<lambda>a c. 10 * a + digit_value c) 0 s"

text \<open>
  \<^verbatim>\<open>re.search(r'\s([A-Z][\w-]+)$', name.strip())\<close>, returning group 1. The group holds
  no white space, so the \<^verbatim>\<open>\s\<close> of a match is the last white-space character of the
  stripped name and the group is all that follows it.
\<close>

definition lastname_search :: "string \<Rightarrow> string option" where
  "lastname_search name =
     (let rs = rev (strip name);
          token = rev (takeWhile (\<lambda>c. \<not> isspace c) rs)
      in if dropWhile (\<lambda>c. \<not> isspace c) rs = [] then None
         else (case token of
                 [] \<Rightarrow> None
               | c # cs \<Rightarrow>
                   if isupper c \<and> cs \<noteq> [] \<and> list_all (\<lambda>x. isword x \<or> x = CHR ''-'') cs
                   then Some token else None))"

text \<open>
  \<^verbatim>\<open>re.search(r'\((\d+)\)$', xml_url)\<close> with \<^verbatim>\<open>int(url_match.group(1))\<close>. \<^verbatim>\<open>$\<close> also
  matches before one final newline.
\<close>

definition url_person_id :: "string \<Rightarrow> nat option" where
  "url_person_id xml_url =
     (let r = (case rev xml_url of
                 [] \<Rightarrow> []
               | c # cs \<Rightarrow> if c = CHR 0x0A then cs else c # cs)
      in case r of
           [] \<Rightarrow> None
         | c # cs \<Rightarrow>
             if c = CHR '')'' \<and> takeWhile isdigit cs \<noteq> [] \<and>
                (case dropWhile isdigit cs of [] \<Rightarrow> False | b # bs \<Rightarrow> b = CHR ''('')
             then Some (int_of_digits (rev (takeWhile isdigit cs)))
             else None)"

text \<open>
  Modelled from the spec: \<^verbatim>\<open>parsetools.normalizeName\<close> is not part of the file. The
  spec has it lower-case the name and collapse white space; this function does that
  and no more. It is used where a concrete normalizer is needed; the functions of the
  model take the normalizer as the parameter \<open>nn\<close>.
\<close>

fun squeeze :: "string \<Rightarrow> string" where
  "squeeze [] = []"
| "squeeze [a] = [if isspace a then CHR 0x20 else a]"
| "squeeze (a # b # cs) =
     (if isspace a \<and> isspace b then squeeze (b # cs)
      else (if isspace a then CHR 0x20 else a) # squeeze (b # cs))"

definition normalizeName :: "string \<Rightarrow> string" where
  "normalizeName s = lower (squeeze (strip s))"

text \<open>
  Modelled from the spec: \<^verbatim>\<open>parsetools.slugify\<close> is not part of the file. The spec has
  it normalize a district name to a slug; this function lower-cases the stripped name
  and puts one hyphen for every run of characters that are not letters. The functions
  of the model take the slug function as the parameter \<open>sl\<close>.
\<close>

fun hyphenate :: "string \<Rightarrow> string" where
  "hyphenate [] = []"
| "hyphenate [a] = [if isword a \<and> \<not> isdigit a \<and> a \<noteq> CHR ''_'' then a else CHR ''-'']"
| "hyphenate (a # b # cs) =
     (let letter = (\<lambda>c. isword c \<and> \<not> isdigit c \<and> c \<noteq> CHR ''_'') in
      if \<not> letter a \<and> \<not> letter b then hyphenate (b # cs)
      else (if letter a then a else CHR ''-'') # hyphenate (b # cs))"

definition slugify :: "string \<Rightarrow> string" where
  "slugify s = hyphenate (lower (strip s))"

section \<open>Party names in \<^verbatim>\<open>InternalXref\<close>\<close>

text \<open>
  \<^verbatim>\<open>InternalXref.objects.filter(schema='party_names', text_value=name)\<close>, the query of
  \<^verbatim>\<open>PartyManager.get_by_name\<close> and \<^verbatim>\<open>Party.add_alternate_name\<close>.
\<close>

definition party_names :: "db \<Rightarrow> string \<Rightarrow> internalxref list" where
  "party_names d name =
     filter (\<lambda>x. x_schema x = ''party_names'' \<and> x_text_value x = name) (internalxref_tbl d)"

text \<open>\<^verbatim>\<open>Party.add_alternate_name(name)\<close>; \<open>self\<close> is \<^verbatim>\<open>self.id\<close>.\<close>

definition Party_add_alternate_name :: "db \<Rightarrow> nat \<Rightarrow> string \<Rightarrow> (error + unit) \<times> db" where
  "Party_add_alternate_name d self name =
     (let name = lower (strip name) in
      case party_names d name of
        [] \<Rightarrow>
          (Inr (), d\<lparr>internalxref_tbl := internalxref_tbl d @
             [\<lparr>x_schema = ''party_names'', x_text_value = name, x_int_value = None,
               x_target_id = self\<rparr>]\<rparr>)
      | x0 # xs \<Rightarrow>
          if x_target_id x0 \<noteq> self then (Inl Exception_party_name_taken, d)
          else (Inr (), d))"

section \<open>Ridings\<close>

definition FIX_RIDING :: "(string \<times> string) list" where
  "FIX_RIDING =
     [(''richmond-arthabasca'', ''richmond-arthabaska''),
      (''richemond-arthabaska'', ''richmond-arthabaska''),
      (''battle-river'', ''westlock-st-paul''),
      (''vancouver-est'', ''vancouver-east''),
      (''calgary-ouest'', ''calgary-west''),
      (''kitchener-wilmot-wellesley-woolwich'', ''kitchener-conestoga''),
      (''carleton-orleans'', ''ottawa-orleans''),
      (''frazer-valley-west'', ''fraser-valley-west''),
      (''laval-ouest'', ''laval-west''),
      (''medecine-hat'', ''medicine-hat''),
      (''lac-st-jean'', ''lac-saint-jean''),
      (''vancouver-north'', ''north-vancouver''),
      (''laval-est'', ''laval-east''),
      (''ottawa-ouest-nepean'', ''ottawa-west-nepean''),
      (''cap-breton-highlands-canso'', ''cape-breton-highlands-canso''),
      (''winnipeg-centre-sud'', ''winnipeg-south-centre''),
      (''renfrew-nippissing-pembroke'', ''renfrew-nipissing-pembroke''),
      (''the-battleford-meadow-lake'', ''the-battlefords-meadow-lake''),
      (''esquimalt-de-fuca'', ''esquimalt-juan-de-fuca''),
      (''sint-hubert'', ''saint-hubert'')]"

text \<open>
  \<^verbatim>\<open>RidingManager.get_by_name(name)\<close>; the result is the primary key of the riding.
  \<^verbatim>\<open>get\<close> raises \<^verbatim>\<open>DoesNotExist\<close> on no row and \<^verbatim>\<open>MultipleObjectsReturned\<close> on several.
\<close>

definition RidingManager_get_by_name ::
  "(string \<Rightarrow> string) \<Rightarrow> db \<Rightarrow> string \<Rightarrow> error + nat" where
  "RidingManager_get_by_name sl d name =
     (let slug = sl name;
          slug = (case map_of FIX_RIDING slug of Some fixed \<Rightarrow> fixed | None \<Rightarrow> slug)
      in case filter (\<lambda>r. riding_slug r = slug) (riding_tbl d) of
           [] \<Rightarrow> Inl Riding_DoesNotExist
         | [r] \<Rightarrow> Inr (riding_id r)
         | r # r' # rs \<Rightarrow> Inl Riding_MultipleObjectsReturned)"

section \<open>Resolving a politician by name\<close>

text \<open>
  \<^verbatim>\<open>PoliticianInfo.sr_objects.filter(schema='alternate_name',
  value=parsetools.normalizeName(name))\<close>
\<close>

definition alternate_name_rows ::
  "(string \<Rightarrow> string) \<Rightarrow> db \<Rightarrow> string \<Rightarrow> politicianinfo list" where
  "alternate_name_rows nn d name =
     filter (\<lambda>i. pi_schema i = ''alternate_name'' \<and> pi_value i = nn name)
       (politicianinfo_tbl d)"

text \<open>\<^verbatim>\<open>PoliticianManager.filter_by_name(name)\<close>\<close>

definition filter_by_name :: "(string \<Rightarrow> string) \<Rightarrow> db \<Rightarrow> string \<Rightarrow> nat list" where
  "filter_by_name nn d name = map pi_politician (alternate_name_rows nn d name)"

text \<open>
  The \<^verbatim>\<open>members\<close> query set inside the loop of \<^verbatim>\<open>get_by_name\<close>: the memberships of one
  politician, narrowed by each criterion that was given.
\<close>

definition matching_members ::
  "db \<Rightarrow> nat \<Rightarrow> string option \<Rightarrow> nat option \<Rightarrow> nat option \<Rightarrow> electedmember list" where
  "matching_members d p session riding party =
     (let members = filter (\<lambda>m. em_politician m = p) (electedmember_tbl d);
          members = (case riding of
                       Some r \<Rightarrow> filter (\<lambda>m. em_riding m = r) members
                     | None \<Rightarrow> members);
          members = (case session of
                       Some s \<Rightarrow> filter (\<lambda>m. s \<in> set (em_sessions m)) members
                     | None \<Rightarrow> members);
          members = (case party of
                       Some pa \<Rightarrow> filter (\<lambda>m. em_party m = pa) members
                     | None \<Rightarrow> members)
      in members)"

text \<open>
  The loop \<^verbatim>\<open>for p in poss\<close>, with \<^verbatim>\<open>result\<close> as the accumulator. A second row with
  matching members raises; a model instance is never falsy, so \<^verbatim>\<open>if result\<close> asks
  whether a result was stored.
\<close>

fun disambiguate ::
  "db \<Rightarrow> string option \<Rightarrow> nat option \<Rightarrow> nat option \<Rightarrow> politicianinfo list \<Rightarrow> nat option
     \<Rightarrow> error + nat option" where
  "disambiguate d session riding party [] result = Inr result"
| "disambiguate d session riding party (p # poss) result =
     (case matching_members d (pi_politician p) session riding party of
        [] \<Rightarrow> disambiguate d session riding party poss result
      | m # ms \<Rightarrow>
          (case result of
             Some earlier \<Rightarrow> Inl Politician_MultipleObjectsReturned
           | None \<Rightarrow> disambiguate d session riding party poss (Some (em_politician m))))"

text \<open>
  The first \<^verbatim>\<open>if\<close> block of \<^verbatim>\<open>get_by_name\<close> returns, raises, or leaves the name to the
  last-name match that follows it.
\<close>

datatype outcome = Return nat | Raise error | Fall_through

definition alternate_name_stage ::
  "(string \<Rightarrow> string) \<Rightarrow> db \<Rightarrow> string \<Rightarrow> string option \<Rightarrow> nat option \<Rightarrow> nat option
     \<Rightarrow> nat option \<Rightarrow> outcome" where
  "alternate_name_stage nn d name session riding election party =
     (case alternate_name_rows nn d name of
        [] \<Rightarrow> Fall_through
      | p # ps \<Rightarrow>
          if session \<noteq> None \<or> riding \<noteq> None \<or> party \<noteq> None then
            (case disambiguate d session riding party (p # ps) None of
               Inl e \<Rightarrow> Raise e
             | Inr (Some result) \<Rightarrow> Return result
             | Inr None \<Rightarrow> Fall_through)
          else if election \<noteq> None then Raise Exception_election_not_implemented
          else if ps \<noteq> [] then Raise Politician_MultipleObjectsReturned
          else Return (pi_politician p))"

text \<open>
  The query set \<^verbatim>\<open>pols\<close>: the politicians of that family name with a membership in the
  session, without repetition, and then those of them with a membership in the riding.
  The two \<^verbatim>\<open>filter\<close> calls each join the memberships on their own.
\<close>

definition lastname_pols :: "db \<Rightarrow> string \<Rightarrow> string \<Rightarrow> nat option \<Rightarrow> politician list" where
  "lastname_pols d lastname session riding =
     (let pols = remdups (filter (\<lambda>p. pol_name_family p = lastname \<and>
                   list_ex (\<lambda>m. em_politician m = pol_id p \<and> session \<in> set (em_sessions m))
                     (electedmember_tbl d)) (politician_tbl d))
      in case riding of
           Some r \<Rightarrow>
             filter (\<lambda>p. list_ex (\<lambda>m. em_politician m = pol_id p \<and> em_riding m = r)
               (electedmember_tbl d)) pols
         | None \<Rightarrow> pols)"

definition last_name_stage ::
  "(string \<Rightarrow> string) \<Rightarrow> db \<Rightarrow> string \<Rightarrow> string option \<Rightarrow> nat option \<Rightarrow> bool \<Rightarrow> bool
     \<Rightarrow> (error + nat) \<times> db" where
  "last_name_stage nn d name session riding saveAlternate strictMatch =
     (case session of
        None \<Rightarrow> (Inl Politician_DoesNotExist, d)
      | Some s \<Rightarrow>
          if strictMatch then (Inl Politician_DoesNotExist, d)
          else
            (case lastname_search name of
               None \<Rightarrow> (Inl Politician_DoesNotExist, d)
             | Some lastname \<Rightarrow>
                 (case lastname_pols d lastname s riding of
                    [] \<Rightarrow> (Inl Politician_DoesNotExist, d)
                  | [pol] \<Rightarrow>
                      if saveAlternate then
                        (case Politician_add_alternate_name nn d (pol_id pol) name of
                           (Inl e, d') \<Rightarrow> (Inl e, d')
                         | (Inr u, d') \<Rightarrow> (Inr (pol_id pol), d'))
                      else (Inr (pol_id pol), d)
                  | pol # pol' # pols \<Rightarrow>
                      if riding \<noteq> None then (Inl Exception_data_error, d)
                      else (Inl Politician_DoesNotExist, d))))"

text \<open>
  \<^verbatim>\<open>PoliticianManager.get_by_name(name, session, riding, election, party,
  saveAlternate, strictMatch)\<close>
\<close>

definition PoliticianManager_get_by_name ::
  "(string \<Rightarrow> string) \<Rightarrow> db \<Rightarrow> string \<Rightarrow> string option \<Rightarrow> nat option \<Rightarrow> nat option
     \<Rightarrow> nat option \<Rightarrow> bool \<Rightarrow> bool \<Rightarrow> (error + nat) \<times> db" where
  "PoliticianManager_get_by_name nn d name session riding election party saveAlternate
       strictMatch =
     (case alternate_name_stage nn d name session riding election party of
        Return result \<Rightarrow> (Inr result, d)
      | Raise e \<Rightarrow> (Inl e, d)
      | Fall_through \<Rightarrow> last_name_stage nn d name session riding saveAlternate strictMatch)"

text \<open>
  \<^verbatim>\<open>Politician.save()\<close>: the row of the politician is written (updated where the key
  exists, inserted otherwise), then the display name is added to the alternate names.
\<close>

definition Politician_save ::
  "(string \<Rightarrow> string) \<Rightarrow> db \<Rightarrow> politician \<Rightarrow> (error + unit) \<times> db" where
  "Politician_save nn d self =
     (let saved = d\<lparr>politician_tbl :=
            (if list_ex (\<lambda>p. pol_id p = pol_id self) (politician_tbl d)
             then map (\<lambda>p. if pol_id p = pol_id self then self else p) (politician_tbl d)
             else politician_tbl d @ [self])\<rparr>
      in Politician_add_alternate_name nn saved (pol_id self) (pol_name self))"

text \<open>
  A row of the alternate-name matches survives the criteria when the loop of
  \<^verbatim>\<open>get_by_name\<close> finds at least one member for it (\<^verbatim>\<open>len(members) >= 1\<close>).
\<close>

definition survives :: "db \<Rightarrow> string option \<Rightarrow> nat option \<Rightarrow> nat option \<Rightarrow> politicianinfo \<Rightarrow> bool" where
  "survives d session riding party i = (matching_members d (pi_politician i) session riding party \<noteq> [])"

text \<open>
  The criteria in the words of the query: a membership meets them when its riding is
  the riding given, the session given is among its sessions, and its party is the party
  given, each criterion counting only when it is given; a politician has a surviving
  membership when one membership of that politician meets them all.
\<close>

definition meets_criteria ::
  "electedmember \<Rightarrow> string option \<Rightarrow> nat option \<Rightarrow> nat option \<Rightarrow> bool" where
  "meets_criteria m session riding party =
     ((case riding of None \<Rightarrow> True | Some r \<Rightarrow> em_riding m = r) \<and>
      (case session of None \<Rightarrow> True | Some s \<Rightarrow> s \<in> set (em_sessions m)) \<and>
      (case party of None \<Rightarrow> True | Some pa \<Rightarrow> em_party m = pa))"

definition has_surviving_membership ::
  "db \<Rightarrow> nat \<Rightarrow> string option \<Rightarrow> nat option \<Rightarrow> nat option \<Rightarrow> bool" where
  "has_surviving_membership d p session riding party =
     list_ex (\<lambda>m. em_politician m = p \<and> meets_criteria m session riding party)
       (electedmember_tbl d)"

section \<open>Resolving a politician by an ourcommons.ca identifier\<close>

text \<open>
  The network is a function from the requested URL to what \<^verbatim>\<open>requests.get\<close> gives:
  a failure to connect, or a response with its status, the URL reached after
  redirects, and its body parsed as the XML profile (\<open>None\<close> when the body does not
  parse). The three text fields are what \<^verbatim>\<open>findtext\<close> returns, \<open>None\<close> when the
  element is absent. Each function returns the URLs it requested, in order.
\<close>

datatype xml_doc =
  Xml_doc (PersonOfficialFirstName: "string option") (PersonOfficialLastName: "string option")
    (ConstituencyName: "string option")

datatype http_response =
    Connection_failed
  | Response (status_code: nat) (url: string) (content: "xml_doc option")

text \<open>\<^verbatim>\<open>Response.raise_for_status()\<close> raises for the statuses 400 to 599.\<close>

definition raise_for_status :: "nat \<Rightarrow> bool" where
  "raise_for_status status = (400 \<le> status \<and> status < 600)"

definition POL_AFFIL_ID_LOOKUP_URL :: "nat \<Rightarrow> string" where
  "POL_AFFIL_ID_LOOKUP_URL parlid =
     ''https://www.ourcommons.ca/Parliamentarians/en/members/profileredirect?affiliationId=''
       @ unicode_nat parlid"

definition POL_PERSON_ID_LOOKUP_URL :: "nat \<Rightarrow> string" where
  "POL_PERSON_ID_LOOKUP_URL parlid =
     ''https://www.ourcommons.ca/Members/en/openparliamentdotca-lookup(''
       @ unicode_nat parlid @ '')''"

text \<open>
  The part of \<^verbatim>\<open>_get_pol_from_ourcommons_url\<close> after the profile document is read:
  the riding is resolved, checked against \<^verbatim>\<open>riding_name\<close> when one is given (an empty
  string is falsy), and the politician is resolved by name in that riding. A missing
  name element makes the string concatenation raise \<^verbatim>\<open>TypeError\<close>. Modelled from the
  spec: a missing constituency element is an error as well (what the absent
  \<^verbatim>\<open>parsetools.slugify\<close> does with \<^verbatim>\<open>None\<close> is not in the file).
\<close>

definition pol_from_xml_doc ::
  "(string \<Rightarrow> string) \<Rightarrow> (string \<Rightarrow> string) \<Rightarrow> db \<Rightarrow> xml_doc \<Rightarrow> string option
     \<Rightarrow> string option \<Rightarrow> (error + nat) \<times> db" where
  "pol_from_xml_doc nn sl d xml_doc session riding_name =
     (case (PersonOfficialFirstName xml_doc, PersonOfficialLastName xml_doc,
            ConstituencyName xml_doc) of
        (Some firstname, Some lastname, Some polriding) \<Rightarrow>
          (let polname = firstname @ '' '' @ lastname in
           case RidingManager_get_by_name sl d polriding of
             Inl e \<Rightarrow>
               (Inl (if e = Riding_DoesNotExist then Politician_DoesNotExist else e), d)
           | Inr riding \<Rightarrow>
               (case (case riding_name of
                        None \<Rightarrow> None
                      | Some given_name \<Rightarrow>
                          if given_name = [] then None
                          else (case RidingManager_get_by_name sl d given_name of
                                  Inl e \<Rightarrow> Some e
                                | Inr given \<Rightarrow>
                                    if riding \<noteq> given then Some Exception_sanity_check
                                    else None)) of
                  Some e \<Rightarrow> (Inl e, d)
                | None \<Rightarrow>
                    PoliticianManager_get_by_name nn d polname session (Some riding) None None
                      True False))
      | _ \<Rightarrow> (Inl TypeError, d))"

text \<open>
  \<^verbatim>\<open>PoliticianManager._get_pol_from_ourcommons_url(url, session, riding_name)\<close>; the
  result is the pair \<^verbatim>\<open>(pol, parl_mp_id)\<close>. Only \<^verbatim>\<open>requests.HTTPError\<close> of the first
  request is caught; the second request's error status and a failure to connect are
  raised as they are. Modelled from the spec: a body that does not parse is an error
  (the exception class of \<^verbatim>\<open>lxml\<close> is not in the file; \<open>TypeError\<close> stands for it).
\<close>

definition get_pol_from_ourcommons_url ::
  "(string \<Rightarrow> http_response) \<Rightarrow> (string \<Rightarrow> string) \<Rightarrow> (string \<Rightarrow> string) \<Rightarrow> db \<Rightarrow> string
     \<Rightarrow> string option \<Rightarrow> string option \<Rightarrow> ((error + nat \<times> nat) \<times> db) \<times> string list" where
  "get_pol_from_ourcommons_url http nn sl d lookup_url session riding_name =
     (case http lookup_url of
        Connection_failed \<Rightarrow> ((Inl RequestException, d), [lookup_url])
      | Response status xml_url body \<Rightarrow>
          if raise_for_status status then ((Inl Politician_DoesNotExist, d), [lookup_url])
          else
            (case url_person_id xml_url of
               None \<Rightarrow>
                 if endswith xml_url ''Members/en''
                 then ((Inl Politician_DoesNotExist, d), [lookup_url])
                 else ((Inl Exception_url_scheme, d), [lookup_url])
             | Some parl_mp_id \<Rightarrow>
                 (case http (xml_url @ ''/xml'') of
                    Connection_failed \<Rightarrow>
                      ((Inl RequestException, d), [lookup_url, xml_url @ ''/xml''])
                  | Response xml_status final_url xml_body \<Rightarrow>
                      if raise_for_status xml_status
                      then ((Inl HTTPError, d), [lookup_url, xml_url @ ''/xml''])
                      else
                        (case xml_body of
                           None \<Rightarrow> ((Inl TypeError, d), [lookup_url, xml_url @ ''/xml''])
                         | Some xml_doc \<Rightarrow>
                             (case pol_from_xml_doc nn sl d xml_doc session riding_name of
                                (Inl e, d') \<Rightarrow>
                                  ((Inl e, d'), [lookup_url, xml_url @ ''/xml''])
                              | (Inr pol, d') \<Rightarrow>
                                  ((Inr (pol, parl_mp_id), d'),
                                   [lookup_url, xml_url @ ''/xml'']))))))"

text \<open>
  \<^verbatim>\<open>PoliticianInfo.sr_objects.get(schema=..., value=unicode(parlid))\<close>: the rows the
  \<^verbatim>\<open>get\<close> chooses from.
\<close>

definition politicianinfo_by_value :: "db \<Rightarrow> string \<Rightarrow> nat \<Rightarrow> politicianinfo list" where
  "politicianinfo_by_value d key parlid =
     filter (\<lambda>i. pi_schema i = key \<and> pi_value i = unicode_nat parlid) (politicianinfo_tbl d)"

text \<open>
  \<^verbatim>\<open>PoliticianManager.get_by_parl_mp_id(parlid, session, riding_name)\<close>. The identifier
  is a number; \<^verbatim>\<open>MultipleObjectsReturned\<close> of the first \<^verbatim>\<open>get\<close> is not caught. The
  politician returned at the end is read again by its key, which a foreign key of the
  database refers to; the model returns that key.
\<close>

definition get_by_parl_mp_id ::
  "(string \<Rightarrow> http_response) \<Rightarrow> (string \<Rightarrow> string) \<Rightarrow> (string \<Rightarrow> string) \<Rightarrow> db \<Rightarrow> nat
     \<Rightarrow> string option \<Rightarrow> string option \<Rightarrow> ((error + nat) \<times> db) \<times> string list" where
  "get_by_parl_mp_id http nn sl d parlid session riding_name =
     (case politicianinfo_by_value d ''parl_mp_id'' parlid of
        [info] \<Rightarrow> ((Inr (pi_politician info), d), [])
      | info # info' # infos \<Rightarrow> ((Inl PoliticianInfo_MultipleObjectsReturned, d), [])
      | [] \<Rightarrow>
          (case get_pol_from_ourcommons_url http nn sl d (POL_PERSON_ID_LOOKUP_URL parlid)
                  session riding_name of
             ((Inl e, d'), urls) \<Rightarrow> ((Inl e, d'), urls)
           | ((Inr (pol, x_mp_id), d'), urls) \<Rightarrow>
               if parlid \<noteq> x_mp_id then ((Inl Exception_id_mismatch, d'), urls)
               else
                 (case Politician_set_info d' pol ''parl_mp_id'' (unicode_nat parlid) False of
                    (Inl e, d2) \<Rightarrow> ((Inl e, d2), urls)
                  | (Inr u, d2) \<Rightarrow> ((Inr pol, d2), urls))))"

text \<open>\<^verbatim>\<open>PoliticianManager.get_by_parl_affil_id(parlid, session, riding_name)\<close>\<close>

definition get_by_parl_affil_id ::
  "(string \<Rightarrow> http_response) \<Rightarrow> (string \<Rightarrow> string) \<Rightarrow> (string \<Rightarrow> string) \<Rightarrow> db \<Rightarrow> nat
     \<Rightarrow> string option \<Rightarrow> string option \<Rightarrow> ((error + nat) \<times> db) \<times> string list" where
  "get_by_parl_affil_id http nn sl d parlid session riding_name =
     (case politicianinfo_by_value d ''parl_affil_id'' parlid of
        [info] \<Rightarrow> ((Inr (pi_politician info), d), [])
      | info # info' # infos \<Rightarrow> ((Inl PoliticianInfo_MultipleObjectsReturned, d), [])
      | [] \<Rightarrow>
          (case get_pol_from_ourcommons_url http nn sl d (POL_AFFIL_ID_LOOKUP_URL parlid)
                  session riding_name of
             ((Inl e, d'), urls) \<Rightarrow> ((Inl e, d'), urls)
           | ((Inr (pol, parl_mp_id), d'), urls) \<Rightarrow>
               (case (case politicianinfo_by_value d' ''parl_mp_id'' parl_mp_id of
                        [mpid_info] \<Rightarrow>
                          if pi_politician mpid_info \<noteq> pol
                          then (Inl Exception_mp_id_already_used, d')
                          else (Inr (), d')
                      | [] \<Rightarrow>
                          Politician_set_info d' pol ''parl_mp_id'' (unicode_nat parl_mp_id) False
                      | i # i' # is \<Rightarrow> (Inl PoliticianInfo_MultipleObjectsReturned, d')) of
                  (Inl e, d2) \<Rightarrow> ((Inl e, d2), urls)
                | (Inr u, d2) \<Rightarrow>
                    (case Politician_set_info_multivalued d2 pol ''parl_affil_id''
                            (unicode_nat parlid) of
                       (Inl e, d3) \<Rightarrow> ((Inl e, d3), urls)
                     | (Inr u', d3) \<Rightarrow> ((Inr pol, d3), urls)))))"

section \<open>Example data\<close>

text \<open>
  Two politicians who share the alternate name \<^verbatim>\<open>john smith\<close>, members for different
  ridings in the same session.
\<close>

definition two_john_smiths :: db where
  "two_john_smiths =
     \<lparr>internalxref_tbl = [],
      politician_tbl =
        [\<lparr>pol_id = 1, pol_name = ''John Smith'', pol_name_given = ''John'', pol_name_family = ''Smith''\<rparr>,
         \<lparr>pol_id = 2, pol_name = ''John Smith'', pol_name_given = ''John'', pol_name_family = ''Smith''\<rparr>],
      politicianinfo_tbl =
        [\<lparr>pi_politician = 1, pi_schema = ''alternate_name'', pi_value = ''john smith''\<rparr>,
         \<lparr>pi_politician = 2, pi_schema = ''alternate_name'', pi_value = ''john smith''\<rparr>],
      electedmember_tbl =
        [\<lparr>em_politician = 1, em_riding = 10, em_party = 100, em_sessions = [''41-1'']\<rparr>,
         \<lparr>em_politician = 2, em_riding = 20, em_party = 100, em_sessions = [''41-1'']\<rparr>],
      riding_tbl = []\<rparr>"

text \<open>
  The same two politicians, the first holding the name in two rows.
\<close>

definition john_smith_stored_twice :: db where
  "john_smith_stored_twice =
     two_john_smiths\<lparr>politicianinfo_tbl :=
       \<lparr>pi_politician = 1, pi_schema = ''alternate_name'', pi_value = ''john smith''\<rparr> #
       politicianinfo_tbl two_john_smiths\<rparr>"

text \<open>
  The same two politicians with other memberships: each membership of the second
  differs from the membership of the first in one field only, the session, the party
  or the riding.
\<close>

definition two_john_smiths_one_riding :: db where
  "two_john_smiths_one_riding =
     two_john_smiths\<lparr>electedmember_tbl :=
       [\<lparr>em_politician = 1, em_riding = 10, em_party = 100, em_sessions = [''41-1'']\<rparr>,
        \<lparr>em_politician = 2, em_riding = 10, em_party = 100, em_sessions = [''40-3'']\<rparr>,
        \<lparr>em_politician = 2, em_riding = 10, em_party = 200, em_sessions = [''41-1'']\<rparr>,
        \<lparr>em_politician = 2, em_riding = 20, em_party = 100, em_sessions = [''41-1'']\<rparr>]\<rparr>"

text \<open>
  One politician who sat for riding 10 in session 41-1 and for riding 11 in session
  40-1.
\<close>

definition smith_two_terms :: db where
  "smith_two_terms =
     \<lparr>internalxref_tbl = [],
      politician_tbl =
        [\<lparr>pol_id = 1, pol_name = ''John Smith'', pol_name_given = ''John'',
          pol_name_family = ''Smith''\<rparr>],
      politicianinfo_tbl =
        [\<lparr>pi_politician = 1, pi_schema = ''alternate_name'', pi_value = ''john smith''\<rparr>],
      electedmember_tbl =
        [\<lparr>em_politician = 1, em_riding = 10, em_party = 100, em_sessions = [''41-1'']\<rparr>,
         \<lparr>em_politician = 1, em_riding = 11, em_party = 100, em_sessions = [''40-1'']\<rparr>],
      riding_tbl = []\<rparr>"

text \<open>Two politicians of family name Smith, members for the same riding in session 41-1.\<close>

definition two_smiths_one_riding :: db where
  "two_smiths_one_riding =
     \<lparr>internalxref_tbl = [],
      politician_tbl =
        [\<lparr>pol_id = 1, pol_name = ''John Smith'', pol_name_given = ''John'',
          pol_name_family = ''Smith''\<rparr>,
         \<lparr>pol_id = 2, pol_name = ''Jane Smith'', pol_name_given = ''Jane'',
          pol_name_family = ''Smith''\<rparr>],
      politicianinfo_tbl =
        [\<lparr>pi_politician = 1, pi_schema = ''alternate_name'', pi_value = ''john smith''\<rparr>,
         \<lparr>pi_politician = 2, pi_schema = ''alternate_name'', pi_value = ''jane smith''\<rparr>],
      electedmember_tbl =
        [\<lparr>em_politician = 1, em_riding = 10, em_party = 100, em_sessions = [''41-1'']\<rparr>,
         \<lparr>em_politician = 2, em_riding = 10, em_party = 200, em_sessions = [''41-1'', ''41-2'']\<rparr>],
      riding_tbl = []\<rparr>"

text \<open>A riding table that holds the riding of slug \<^verbatim>\<open>richmond-arthabaska\<close> only.\<close>

definition richmond_only :: db where
  "richmond_only =
     \<lparr>internalxref_tbl = [], politician_tbl = [], politicianinfo_tbl = [],
      electedmember_tbl = [],
      riding_tbl = [\<lparr>riding_id = 1, riding_slug = ''richmond-arthabaska''\<rparr>]\<rparr>"

text \<open>The riding name written with an em dash (U+2014, three bytes in UTF-8).\<close>

definition Richmond_Arthabaska :: string where
  "Richmond_Arthabaska = ''Richmond'' @ [CHR 0xE2, CHR 0x80, CHR 0x94] @ ''Arthabaska''"

text \<open>
  One politician, John Smith, member for the riding of key 1; \<open>infos\<close> are the further
  rows of that politician in \<^verbatim>\<open>PoliticianInfo\<close>.
\<close>

definition richmond_member :: "politicianinfo list \<Rightarrow> db" where
  "richmond_member infos =
     \<lparr>internalxref_tbl = [],
      politician_tbl =
        [\<lparr>pol_id = 1, pol_name = ''John Smith'', pol_name_given = ''John'',
          pol_name_family = ''Smith''\<rparr>],
      politicianinfo_tbl =
        \<lparr>pi_politician = 1, pi_schema = ''alternate_name'', pi_value = ''john smith''\<rparr> # infos,
      electedmember_tbl =
        [\<lparr>em_politician = 1, em_riding = 1, em_party = 100, em_sessions = [''41-1'']\<rparr>],
      riding_tbl = [\<lparr>riding_id = 1, riding_slug = ''richmond-arthabaska''\<rparr>]\<rparr>"

text \<open>
  A directory that knows the person identifier 9: its look-up URL redirects to the
  profile of John Smith, member for Richmond-Arthabasca (spelt as the directory spells
  it); every other URL answers 404.
\<close>

definition ourcommons :: "string \<Rightarrow> http_response" where
  "ourcommons u =
     (if u = POL_PERSON_ID_LOOKUP_URL 9
      then Response 200 ''https://www.ourcommons.ca/Members/en/john-smith(9)'' None
      else if u = ''https://www.ourcommons.ca/Members/en/john-smith(9)/xml''
      then Response 200 u (Some (Xml_doc (Some ''John'') (Some ''Smith'')
             (Some ''Richmond-Arthabasca'')))
      else Response 404 u None)"

section \<open>Properties of \<^verbatim>\<open>set_info\<close>\<close>

text \<open>
  C10. When a politician holds two or more rows under one schema,
  \<^verbatim>\<open>set_info(key, value, overwrite=False)\<close> raises nothing: every row of that schema is
  deleted and the new value becomes the politician's only row there, the rows of other
  politicians and schemas staying as they were. The \<^verbatim>\<open>ValueError\<close> of
  \<^verbatim>\<open>overwrite=False\<close> is raised exactly when one prior row exists.
\<close>

theorem set_info_no_overwrite_multiple_rows:
  "(2 \<le> length (politicianinfo_set d self key) \<longrightarrow>
      (\<exists>d'. Politician_set_info d self key v False = (Inr (), d') \<and>
         politicianinfo_set d' self key =
           [\<lparr>pi_politician = self, pi_schema = key, pi_value = v\<rparr>] \<and>
         filter (\<lambda>i. \<not> (pi_politician i = self \<and> pi_schema i = key)) (politicianinfo_tbl d') =
         filter (\<lambda>i. \<not> (pi_politician i = self \<and> pi_schema i = key)) (politicianinfo_tbl d)))
   \<and> (fst (Politician_set_info d self key v False) = Inl ValueError
        \<longleftrightarrow> length (politicianinfo_set d self key) = 1)"
proof (cases "politicianinfo_set d self key")
  case Nil
  then show ?thesis by (simp add: Politician_set_info_def)
next
  case (Cons a as)
  note outer = Cons
  show ?thesis
  proof (cases as)
    case Nil
    with outer show ?thesis by (simp add: Politician_set_info_def)
  next
    case (Cons b bs)
    with outer have rows: "politicianinfo_set d self key = a # b # bs" by simp
    have run: "Politician_set_info d self key v False =
      (Inr (), d\<lparr>politicianinfo_tbl :=
         filter (\<lambda>i. \<not> (pi_politician i = self \<and> pi_schema i = key)) (politicianinfo_tbl d) @
         [\<lparr>pi_politician = self, pi_schema = key, pi_value = v\<rparr>]\<rparr>)"
      by (simp add: Politician_set_info_def rows)
    have mine: "politicianinfo_set
        (d\<lparr>politicianinfo_tbl :=
           filter (\<lambda>i. \<not> (pi_politician i = self \<and> pi_schema i = key)) (politicianinfo_tbl d) @
           [\<lparr>pi_politician = self, pi_schema = key, pi_value = v\<rparr>]\<rparr>) self key =
        [\<lparr>pi_politician = self, pi_schema = key, pi_value = v\<rparr>]"
      by (simp add: politicianinfo_set_def)
    show ?thesis
      unfolding run using mine by (simp add: rows)
  qed
qed

text \<open>
  A politician with the two person identifiers 7 and 8 is given 9 with
  \<^verbatim>\<open>overwrite=False\<close>: both rows are gone and 9 is stored.
\<close>

theorem set_info_no_overwrite_multiple_rows_witness:
  "2 \<le> length (politicianinfo_set
       \<lparr>internalxref_tbl = [], politician_tbl = [],
        politicianinfo_tbl =
          [\<lparr>pi_politician = 1, pi_schema = ''parl_mp_id'', pi_value = ''7''\<rparr>,
           \<lparr>pi_politician = 2, pi_schema = ''parl_mp_id'', pi_value = ''5''\<rparr>,
           \<lparr>pi_politician = 1, pi_schema = ''parl_mp_id'', pi_value = ''8''\<rparr>],
        electedmember_tbl = [], riding_tbl = []\<rparr> 1 ''parl_mp_id'')
   \<and> Politician_set_info
       \<lparr>internalxref_tbl = [], politician_tbl = [],
        politicianinfo_tbl =
          [\<lparr>pi_politician = 1, pi_schema = ''parl_mp_id'', pi_value = ''7''\<rparr>,
           \<lparr>pi_politician = 2, pi_schema = ''parl_mp_id'', pi_value = ''5''\<rparr>,
           \<lparr>pi_politician = 1, pi_schema = ''parl_mp_id'', pi_value = ''8''\<rparr>],
        electedmember_tbl = [], riding_tbl = []\<rparr> 1 ''parl_mp_id'' ''9'' False =
     (Inr (),
       \<lparr>internalxref_tbl = [], politician_tbl = [],
        politicianinfo_tbl =
          [\<lparr>pi_politician = 2, pi_schema = ''parl_mp_id'', pi_value = ''5''\<rparr>,
           \<lparr>pi_politician = 1, pi_schema = ''parl_mp_id'', pi_value = ''9''\<rparr>],
        electedmember_tbl = [], riding_tbl = []\<rparr>)"
  using set_info_no_overwrite_multiple_rows
    [of "\<lparr>internalxref_tbl = [], politician_tbl = [],
        politicianinfo_tbl =
          [\<lparr>pi_politician = 1, pi_schema = ''parl_mp_id'', pi_value = ''7''\<rparr>,
           \<lparr>pi_politician = 2, pi_schema = ''parl_mp_id'', pi_value = ''5''\<rparr>,
           \<lparr>pi_politician = 1, pi_schema = ''parl_mp_id'', pi_value = ''8''\<rparr>],
        electedmember_tbl = [], riding_tbl = []\<rparr>" 1 "''parl_mp_id''" "''9''"]
  by (simp add: politicianinfo_set_def Politician_set_info_def)

section \<open>The loop over the alternate-name matches\<close>

text \<open>
  The loop returns the politician of the only surviving row, nothing when no row
  survives, and raises when two rows survive; a row is counted, not a politician.
\<close>

lemma matching_members_politician:
  "m \<in> set (matching_members d p session riding party) \<Longrightarrow> em_politician m = p"
  by (auto simp: matching_members_def Let_def split: option.splits)

lemma disambiguate_after_match:
  "disambiguate d session riding party poss (Some x) =
     (if filter (survives d session riding party) poss = [] then Inr (Some x)
      else Inl Politician_MultipleObjectsReturned)"
  by (induction poss) (auto simp: survives_def split: list.splits)

lemma disambiguate_from_start:
  "disambiguate d session riding party poss None =
     (case filter (survives d session riding party) poss of
        [] \<Rightarrow> Inr None
      | [i] \<Rightarrow> Inr (Some (pi_politician i))
      | i # i' # is \<Rightarrow> Inl Politician_MultipleObjectsReturned)"
proof (induction poss)
  case Nil
  show ?case by simp
next
  case (Cons p poss)
  show ?case
  proof (cases "matching_members d (pi_politician p) session riding party")
    case Nil
    then show ?thesis using Cons.IH by (simp add: survives_def)
  next
    case (Cons m ms)
    then have "m \<in> set (matching_members d (pi_politician p) session riding party)" by simp
    then have "em_politician m = pi_politician p" by (rule matching_members_politician)
    with Cons show ?thesis
      by (simp add: survives_def[of d session riding party p] disambiguate_after_match split: list.splits)
  qed
qed

lemma distinct_set_singleton:
  assumes "set xs = {x}" and "distinct xs"
  shows "xs = [x]"
proof (cases xs)
  case Nil
  with assms show ?thesis by simp
next
  case (Cons y ys)
  with assms have "y = x" by auto
  moreover have "ys = []"
  proof (cases ys)
    case Nil
    then show ?thesis .
  next
    case (Cons z zs)
    with \<open>xs = y # ys\<close> assms have "z = x" "z \<noteq> y" by auto
    with \<open>y = x\<close> show ?thesis by simp
  qed
  ultimately show ?thesis using Cons by simp
qed

lemma two_members_list:
  assumes "x \<in> set xs" and "y \<in> set xs" and "x \<noteq> y"
  obtains a b cs where "xs = a # b # cs"
proof (cases xs)
  case Nil
  with assms(1) show ?thesis by simp
next
  case (Cons a as)
  show ?thesis
  proof (cases as)
    case Nil
    with Cons assms show ?thesis by simp
  next
    case (Cons b bs)
    with \<open>xs = a # as\<close> that show ?thesis by simp
  qed
qed


lemma nn_js: "normalizeName ''John Smith'' = ''john smith''"
  by (simp add: normalizeName_def lower_def lower_char_def strip_def isspace_def)

lemma add_alternate_name_result:
  "Politician_add_alternate_name nn d self name =
     (Inr (), if nn name \<in> set (alternate_names d self) then d
              else d\<lparr>politicianinfo_tbl := politicianinfo_tbl d @
                [\<lparr>pi_politician = self, pi_schema = ''alternate_name'', pi_value = nn name\<rparr>]\<rparr>)"
proof (cases "nn name \<in> set (alternate_names d self)")
  case True
  then show ?thesis by (simp add: Politician_add_alternate_name_def)
next
  case False
  then have "filter (\<lambda>i. pi_value i = nn name) (politicianinfo_set d self ''alternate_name'') = []"
    by (force simp: alternate_names_def filter_empty_conv)
  with False show ?thesis
    by (simp add: Politician_add_alternate_name_def Politician_set_info_multivalued_def)
qed

lemma survives_iff:
  "survives d session riding party i \<longleftrightarrow>
     has_surviving_membership d (pi_politician i) session riding party"
  by (cases session; cases riding; cases party)
    (auto simp: survives_def matching_members_def has_surviving_membership_def
      meets_criteria_def list_ex_iff filter_empty_conv Let_def)

lemma filter_survives:
  "filter (survives d session riding party) poss =
   filter (\<lambda>i. has_surviving_membership d (pi_politician i) session riding party) poss"
  by (rule filter_cong) (simp_all add: survives_iff)

lemma single_survivor_returned:
  assumes ctx: "session \<noteq> None \<or> riding \<noteq> None \<or> party \<noteq> None"
    and one: "filter (\<lambda>i. has_surviving_membership d (pi_politician i) session riding party)
                (alternate_name_rows nn d name) = [i]"
  shows "alternate_name_stage nn d name session riding election party = Return (pi_politician i)"
    and "i \<in> set (alternate_name_rows nn d name)"
proof -
  from one have "i \<in> set (filter (\<lambda>i. has_surviving_membership d (pi_politician i) session
      riding party) (alternate_name_rows nn d name))" by simp
  then show mem: "i \<in> set (alternate_name_rows nn d name)" by simp
  then obtain p ps where rows: "alternate_name_rows nn d name = p # ps"
    by (cases "alternate_name_rows nn d name") auto
  have "disambiguate d session riding party (p # ps) None = Inr (Some (pi_politician i))"
    using one unfolding rows[symmetric] by (simp add: disambiguate_from_start filter_survives)
  then show "alternate_name_stage nn d name session riding election party
      = Return (pi_politician i)"
    using ctx by (simp add: alternate_name_stage_def rows)
qed

section \<open>Resolution by alternate name\<close>




text \<open>
  The loop counts rows: when the politician with the surviving membership holds the
  name in two rows, the second row raises \<^verbatim>\<open>MultipleObjectsReturned\<close>.
\<close>

theorem get_by_name_duplicate_row_ambiguous:
  "filter_by_name normalizeName john_smith_stored_twice ''John Smith'' = [1, 1, 2]
   \<and> has_surviving_membership john_smith_stored_twice 1 (Some ''41-1'') (Some 10) None
   \<and> \<not> has_surviving_membership john_smith_stored_twice 2 (Some ''41-1'') (Some 10) None
   \<and> PoliticianManager_get_by_name normalizeName john_smith_stored_twice ''John Smith''
        (Some ''41-1'') (Some 10) None None True False =
      (Inl Politician_MultipleObjectsReturned, john_smith_stored_twice)"
  by code_simp

text \<open>
  C5, as amended. Two distinct politicians are the holders of the normalized name, and
  the first holds it in one row (as \<^verbatim>\<open>add_alternate_name\<close> stores it, which adds a name
  only when it is absent). The first has a membership that meets every criterion given
  (riding equal, session among the sessions of the membership, party equal), the
  second has none. Then \<^verbatim>\<open>get_by_name\<close> with that name and context returns the first
  politician, and so not the second.
\<close>

theorem get_by_name_context_picks_single_row_member:
  assumes ctx: "session \<noteq> None \<or> riding \<noteq> None \<or> party \<noteq> None"
    and ab: "a \<noteq> b"
    and holders: "set (filter_by_name nn d name) = {a, b}"
    and one_row: "length (filter (\<lambda>i. pi_politician i = a) (alternate_name_rows nn d name)) = 1"
    and a_in: "has_surviving_membership d a session riding party"
    and b_out: "\<not> has_surviving_membership d b session riding party"
  shows "PoliticianManager_get_by_name nn d name session riding election party saveAlternate
           strictMatch = (Inr a, d)"
proof -
  let ?poss = "alternate_name_rows nn d name"
  have each: "\<And>i. i \<in> set ?poss \<Longrightarrow> pi_politician i = a \<or> pi_politician i = b"
    using holders by (auto simp: filter_by_name_def)
  have same: "filter (\<lambda>i. has_surviving_membership d (pi_politician i) session riding party) ?poss
      = filter (\<lambda>i. pi_politician i = a) ?poss"
  proof (rule filter_cong)
    fix j assume "j \<in> set ?poss"
    with each [of j] a_in b_out ab
    show "has_surviving_membership d (pi_politician j) session riding party \<longleftrightarrow>
        pi_politician j = a" by auto
  qed simp
  from one_row obtain i where i: "filter (\<lambda>i. pi_politician i = a) ?poss = [i]"
    by (cases "filter (\<lambda>i. pi_politician i = a) ?poss") auto
  then have "i \<in> set (filter (\<lambda>i. pi_politician i = a) ?poss)" by simp
  then have a: "pi_politician i = a" by simp
  from single_survivor_returned(1) [OF ctx, of d nn name i election] same i a
  have "alternate_name_stage nn d name session riding election party = Return a" by simp
  then show ?thesis by (simp add: PoliticianManager_get_by_name_def)
qed

text \<open>
  The session, the riding and the party of the first John Smith; the second has a
  membership that fails each criterion alone.
\<close>

theorem get_by_name_context_picks_single_row_member_witness:
  "(1::nat) \<noteq> 2
   \<and> set (filter_by_name normalizeName two_john_smiths_one_riding ''John Smith'') = {1, 2}
   \<and> length (filter (\<lambda>i. pi_politician i = 1)
        (alternate_name_rows normalizeName two_john_smiths_one_riding ''John Smith'')) = 1
   \<and> has_surviving_membership two_john_smiths_one_riding 1 (Some ''41-1'') (Some 10) (Some 100)
   \<and> \<not> has_surviving_membership two_john_smiths_one_riding 2 (Some ''41-1'') (Some 10) (Some 100)
   \<and> PoliticianManager_get_by_name normalizeName two_john_smiths_one_riding ''John Smith''
        (Some ''41-1'') (Some 10) None (Some 100) True False = (Inr 1, two_john_smiths_one_riding)"
proof -
  have ctx: "Some ''41-1'' \<noteq> None \<or> Some (10::nat) \<noteq> None \<or> Some (100::nat) \<noteq> None"
    by simp
  have ab: "(1::nat) \<noteq> 2" by simp
  have rows: "filter_by_name normalizeName two_john_smiths_one_riding ''John Smith'' = [1, 2]"
    by code_simp
  have holders: "set (filter_by_name normalizeName two_john_smiths_one_riding ''John Smith'')
      = {1, 2}"
    unfolding rows by simp
  have one_row: "length (filter (\<lambda>i. pi_politician i = 1)
        (alternate_name_rows normalizeName two_john_smiths_one_riding ''John Smith'')) = 1"
    by code_simp
  have a_in: "has_surviving_membership two_john_smiths_one_riding 1 (Some ''41-1'') (Some 10)
      (Some 100)"
    by code_simp
  have b_out: "\<not> has_surviving_membership two_john_smiths_one_riding 2 (Some ''41-1'') (Some 10)
      (Some 100)"
    by code_simp
  have run: "PoliticianManager_get_by_name normalizeName two_john_smiths_one_riding ''John Smith''
        (Some ''41-1'') (Some 10) None (Some 100) True False = (Inr 1, two_john_smiths_one_riding)"
    by (rule get_by_name_context_picks_single_row_member [OF ctx ab holders one_row a_in b_out])
  show ?thesis
    by (intro conjI ab holders one_row a_in b_out run)
qed

text \<open>
  C6. When the normalized name is an alternate name of two distinct politicians,
  \<^verbatim>\<open>get_by_name(name)\<close> with no session, riding, election or party raises
  \<^verbatim>\<open>Politician.MultipleObjectsReturned\<close> and returns none of them.
\<close>

theorem get_by_name_ambiguous_without_context:
  assumes "a \<in> set (filter_by_name nn d name)" and "b \<in> set (filter_by_name nn d name)"
    and "a \<noteq> b"
  shows "PoliticianManager_get_by_name nn d name None None None None saveAlternate strictMatch
           = (Inl Politician_MultipleObjectsReturned, d)"
proof -
  obtain p q qs where "alternate_name_rows nn d name = p # q # qs"
  proof (cases "alternate_name_rows nn d name")
    case Nil
    with assms(1) show ?thesis by (simp add: filter_by_name_def)
  next
    case (Cons x xs)
    show ?thesis
    proof (cases xs)
      case Nil
      with Cons assms show ?thesis by (simp add: filter_by_name_def)
    next
      case (Cons y ys)
      with \<open>alternate_name_rows nn d name = x # xs\<close> that show ?thesis by simp
    qed
  qed
  then show ?thesis
    by (simp add: PoliticianManager_get_by_name_def alternate_name_stage_def)
qed

text \<open>
  The two politicians named John Smith, asked for by name alone.
\<close>

theorem get_by_name_ambiguous_without_context_witness:
  "1 \<in> set (filter_by_name normalizeName two_john_smiths ''John Smith'')
   \<and> 2 \<in> set (filter_by_name normalizeName two_john_smiths ''John Smith'')
   \<and> (1::nat) \<noteq> 2
   \<and> PoliticianManager_get_by_name normalizeName two_john_smiths ''John Smith'' None None None None
        True False = (Inl Politician_MultipleObjectsReturned, two_john_smiths)"
proof -
  have a: "1 \<in> set (filter_by_name normalizeName two_john_smiths ''John Smith'')"
    and b: "2 \<in> set (filter_by_name normalizeName two_john_smiths ''John Smith'')"
    by (simp_all add: nn_js filter_by_name_def alternate_name_rows_def two_john_smiths_def)
  have ab: "(1::nat) \<noteq> 2" by simp
  show ?thesis
    using a b get_by_name_ambiguous_without_context [OF a b ab, of True False] by simp
qed

section \<open>The last-name match\<close>

lemma lastname_pols_member:
  assumes "p \<in> set (politician_tbl d)" and "pol_name_family p = lastname"
    and "m \<in> set (electedmember_tbl d)" and "em_politician m = pol_id p"
    and "s \<in> set (em_sessions m)"
    and "riding = None \<or> riding = Some (em_riding m)"
  shows "p \<in> set (lastname_pols d lastname s riding)"
  using assms by (auto simp: lastname_pols_def list_ex_iff split: option.splits)

text \<open>
  What the last-name match does once it is reached and the pattern has found a family
  name: with two distinct politicians of that family name who each have a membership
  in the session, and in the riding when a riding is given, it raises the data error
  when a riding is given and \<^verbatim>\<open>Politician.DoesNotExist\<close> when none is; with an empty
  query set it raises \<^verbatim>\<open>Politician.DoesNotExist\<close>. Nothing is written.
\<close>

lemma last_name_match_outcomes:
  assumes reached: "alternate_name_stage nn d name (Some s) riding election party = Fall_through"
    and token: "lastname_search name = Some lastname"
  shows "(p1 \<in> set (politician_tbl d) \<and> p2 \<in> set (politician_tbl d) \<and> p1 \<noteq> p2 \<and>
          pol_name_family p1 = lastname \<and> pol_name_family p2 = lastname \<and>
          m1 \<in> set (electedmember_tbl d) \<and> em_politician m1 = pol_id p1 \<and>
          s \<in> set (em_sessions m1) \<and>
          m2 \<in> set (electedmember_tbl d) \<and> em_politician m2 = pol_id p2 \<and>
          s \<in> set (em_sessions m2) \<and>
          (riding = None \<or> riding = Some (em_riding m1) \<and> riding = Some (em_riding m2))
          \<longrightarrow> PoliticianManager_get_by_name nn d name (Some s) riding election party
                 saveAlternate False =
               (Inl (if riding = None then Politician_DoesNotExist else Exception_data_error), d))
       \<and> (lastname_pols d lastname s riding = []
          \<longrightarrow> PoliticianManager_get_by_name nn d name (Some s) riding election party
                 saveAlternate False = (Inl Politician_DoesNotExist, d))"
proof (intro conjI impI)
  assume two: "p1 \<in> set (politician_tbl d) \<and> p2 \<in> set (politician_tbl d) \<and> p1 \<noteq> p2 \<and>
          pol_name_family p1 = lastname \<and> pol_name_family p2 = lastname \<and>
          m1 \<in> set (electedmember_tbl d) \<and> em_politician m1 = pol_id p1 \<and>
          s \<in> set (em_sessions m1) \<and>
          m2 \<in> set (electedmember_tbl d) \<and> em_politician m2 = pol_id p2 \<and>
          s \<in> set (em_sessions m2) \<and>
          (riding = None \<or> riding = Some (em_riding m1) \<and> riding = Some (em_riding m2))"
  then have "p1 \<in> set (lastname_pols d lastname s riding)"
    and "p2 \<in> set (lastname_pols d lastname s riding)"
    using lastname_pols_member [of p1 d lastname m1 s riding]
      lastname_pols_member [of p2 d lastname m2 s riding]
    by blast+
  moreover from two have "p1 \<noteq> p2" by simp
  ultimately obtain a b cs where "lastname_pols d lastname s riding = a # b # cs"
    by (rule two_members_list)
  then show "PoliticianManager_get_by_name nn d name (Some s) riding election party
                 saveAlternate False =
               (Inl (if riding = None then Politician_DoesNotExist else Exception_data_error), d)"
    using reached token
    by (simp add: PoliticianManager_get_by_name_def last_name_stage_def)
next
  assume "lastname_pols d lastname s riding = []"
  then show "PoliticianManager_get_by_name nn d name (Some s) riding election party
                 saveAlternate False = (Inl Politician_DoesNotExist, d)"
    using reached token
    by (simp add: PoliticianManager_get_by_name_def last_name_stage_def)
qed

text \<open>
  J. Smith in session 41-1, where two members of family name Smith sit for riding 10:
  with riding 10, with no riding, and with riding 11 where no Smith sits.
\<close>

lemma last_name_match_outcomes_example:
  "PoliticianManager_get_by_name normalizeName two_smiths_one_riding ''J. Smith'' (Some ''41-1'')
      (Some 10) None None True False = (Inl Exception_data_error, two_smiths_one_riding)
   \<and> PoliticianManager_get_by_name normalizeName two_smiths_one_riding ''J. Smith'' (Some ''41-1'')
      None None None True False = (Inl Politician_DoesNotExist, two_smiths_one_riding)
   \<and> PoliticianManager_get_by_name normalizeName two_smiths_one_riding ''J. Smith'' (Some ''41-1'')
      (Some 11) None None True False = (Inl Politician_DoesNotExist, two_smiths_one_riding)"
proof -
  let ?d = two_smiths_one_riding
  let ?p1 = "\<lparr>pol_id = 1, pol_name = ''John Smith'', pol_name_given = ''John'',
          pol_name_family = ''Smith''\<rparr>"
  let ?p2 = "\<lparr>pol_id = 2, pol_name = ''Jane Smith'', pol_name_given = ''Jane'',
          pol_name_family = ''Smith''\<rparr>"
  let ?m1 = "\<lparr>em_politician = 1, em_riding = 10, em_party = 100, em_sessions = [''41-1'']\<rparr>"
  let ?m2 = "\<lparr>em_politician = 2, em_riding = 10, em_party = 200,
          em_sessions = [''41-1'', ''41-2'']\<rparr>"
  have token: "lastname_search ''J. Smith'' = Some ''Smith''"
    by code_simp
  have reached: "\<And>riding. alternate_name_stage normalizeName ?d ''J. Smith'' (Some ''41-1'')
      riding None None = Fall_through"
    by (simp add: alternate_name_stage_def alternate_name_rows_def two_smiths_one_riding_def
        normalizeName_def lower_def lower_char_def strip_def isspace_def)
  have two: "?p1 \<in> set (politician_tbl ?d) \<and> ?p2 \<in> set (politician_tbl ?d) \<and> ?p1 \<noteq> ?p2 \<and>
      pol_name_family ?p1 = ''Smith'' \<and> pol_name_family ?p2 = ''Smith'' \<and>
      ?m1 \<in> set (electedmember_tbl ?d) \<and> em_politician ?m1 = pol_id ?p1 \<and>
      ''41-1'' \<in> set (em_sessions ?m1) \<and>
      ?m2 \<in> set (electedmember_tbl ?d) \<and> em_politician ?m2 = pol_id ?p2 \<and>
      ''41-1'' \<in> set (em_sessions ?m2)"
    by (simp add: two_smiths_one_riding_def)
  have r10: "em_riding ?m1 = 10" "em_riding ?m2 = 10" by simp_all
  have none: "lastname_pols ?d ''Smith'' ''41-1'' (Some 11) = []"
    by code_simp
  have A: "PoliticianManager_get_by_name normalizeName ?d ''J. Smith'' (Some ''41-1'')
      (Some 10) None None True False = (Inl Exception_data_error, ?d)"
    using last_name_match_outcomes [OF reached token, of ?p1 ?p2 ?m1 ?m2 "Some 10" True] two r10
    by simp
  have B: "PoliticianManager_get_by_name normalizeName ?d ''J. Smith'' (Some ''41-1'')
      None None None True False = (Inl Politician_DoesNotExist, ?d)"
    using last_name_match_outcomes [OF reached token, of ?p1 ?p2 ?m1 ?m2 None True] two
    by simp
  have C: "PoliticianManager_get_by_name normalizeName ?d ''J. Smith'' (Some ''41-1'')
      (Some 11) None None True False = (Inl Politician_DoesNotExist, ?d)"
    using last_name_match_outcomes [OF reached token, of ?p1 ?p2 ?m1 ?m2 "Some 11" True] none
    by simp
  from A B C show ?thesis by simp
qed

text \<open>
  C7. The claim holds of the two-or-more cases above, and fails in the code where no
  politician of the family name has a membership in the session and the riding
  together: the two \<^verbatim>\<open>filter\<close> calls join the memberships separately, so a
  politician with one membership in the session and another in the riding is a result.
  Here John Smith sat for riding 10 in session 41-1 and for riding 11 in session 40-1;
  asked for J. Smith in session 41-1 and riding 11, where no membership has both,
  \<^verbatim>\<open>get_by_name\<close> returns John Smith and stores the spelling, where the claim (and the
  message of the data error, "elected to the same riding from the same session") has
  \<^verbatim>\<open>Politician.DoesNotExist\<close>.
\<close>

theorem last_name_match_joins_separately:
  "list_all (\<lambda>m. \<not> (''41-1'' \<in> set (em_sessions m) \<and> em_riding m = 11))
      (electedmember_tbl smith_two_terms)
   \<and> PoliticianManager_get_by_name normalizeName smith_two_terms ''J. Smith'' (Some ''41-1'')
        (Some 11) None None True False =
      (Inr 1,
       smith_two_terms\<lparr>politicianinfo_tbl :=
         [\<lparr>pi_politician = 1, pi_schema = ''alternate_name'', pi_value = ''john smith''\<rparr>,
          \<lparr>pi_politician = 1, pi_schema = ''alternate_name'', pi_value = ''j. smith''\<rparr>]\<rparr>)"
  by code_simp

section \<open>Properties of \<^verbatim>\<open>Politician.save\<close>\<close>

lemma alternate_names_politician_tbl [simp]:
  "alternate_names (d\<lparr>politician_tbl := ps\<rparr>) self = alternate_names d self"
  by (simp add: alternate_names_def politicianinfo_set_def)

lemma politicianinfo_fields:
  "(x = \<lparr>pi_politician = p, pi_schema = k, pi_value = v\<rparr>) \<longleftrightarrow>
     pi_politician x = p \<and> pi_schema x = k \<and> pi_value x = v"
  by (cases x) simp

lemma alternate_names_row_iff:
  "nn name \<in> set (alternate_names d self) \<longleftrightarrow>
     \<lparr>pi_politician = self, pi_schema = ''alternate_name'', pi_value = nn name\<rparr>
       \<in> set (politicianinfo_tbl d)"
proof
  assume "nn name \<in> set (alternate_names d self)"
  then obtain x where x: "x \<in> set (politicianinfo_tbl d)" "pi_politician x = self"
      "pi_schema x = ''alternate_name''" "pi_value x = nn name"
    by (auto simp: alternate_names_def politicianinfo_set_def)
  from x(2-4) have "x = \<lparr>pi_politician = self, pi_schema = ''alternate_name'', pi_value = nn name\<rparr>"
    by (simp add: politicianinfo_fields)
  with x(1) show "\<lparr>pi_politician = self, pi_schema = ''alternate_name'', pi_value = nn name\<rparr>
       \<in> set (politicianinfo_tbl d)" by simp
next
  assume "\<lparr>pi_politician = self, pi_schema = ''alternate_name'', pi_value = nn name\<rparr>
       \<in> set (politicianinfo_tbl d)"
  then show "nn name \<in> set (alternate_names d self)"
    by (force simp: alternate_names_def politicianinfo_set_def)
qed

lemma alternate_names_holds_row:
  "nn name \<in> set (alternate_names d self) \<Longrightarrow>
     \<lparr>pi_politician = self, pi_schema = ''alternate_name'', pi_value = nn name\<rparr>
       \<in> set (alternate_name_rows nn d name)"
  by (simp add: alternate_names_row_iff alternate_name_rows_def)

text \<open>
  C9. \<^verbatim>\<open>Politician.save()\<close> always succeeds, and after it the normalized display
  name is among the alternate names of the politician: \<^verbatim>\<open>filter_by_name\<close> of the display
  name lists the politician, and \<^verbatim>\<open>get_by_name\<close> of the display name with no context
  returns the politician when the politician's row is the only row of that name, and
  raises \<^verbatim>\<open>MultipleObjectsReturned\<close> when there are more rows. The row is added only
  when it is not there: the table is unchanged when the name was stored, one row longer
  otherwise, and the number of copies of the row is the earlier number or one.
\<close>

theorem save_makes_display_name_findable:
  "\<exists>d'. Politician_save nn d self = (Inr (), d')
     \<and> nn (pol_name self) \<in> set (alternate_names d' (pol_id self))
     \<and> pol_id self \<in> set (filter_by_name nn d' (pol_name self))
     \<and> PoliticianManager_get_by_name nn d' (pol_name self) None None None None saveAlternate
          strictMatch =
        (if filter_by_name nn d' (pol_name self) = [pol_id self] then Inr (pol_id self)
         else Inl Politician_MultipleObjectsReturned, d')
     \<and> politicianinfo_tbl d' =
         (if nn (pol_name self) \<in> set (alternate_names d (pol_id self)) then politicianinfo_tbl d
          else politicianinfo_tbl d @
            [\<lparr>pi_politician = pol_id self, pi_schema = ''alternate_name'',
              pi_value = nn (pol_name self)\<rparr>])
     \<and> count_list (politicianinfo_tbl d')
           \<lparr>pi_politician = pol_id self, pi_schema = ''alternate_name'',
             pi_value = nn (pol_name self)\<rparr> =
         max 1 (count_list (politicianinfo_tbl d)
           \<lparr>pi_politician = pol_id self, pi_schema = ''alternate_name'',
             pi_value = nn (pol_name self)\<rparr>)"
proof -
  let ?row = "\<lparr>pi_politician = pol_id self, pi_schema = ''alternate_name'',
                pi_value = nn (pol_name self)\<rparr>"
  let ?saved = "d\<lparr>politician_tbl :=
            (if list_ex (\<lambda>p. pol_id p = pol_id self) (politician_tbl d)
             then map (\<lambda>p. if pol_id p = pol_id self then self else p) (politician_tbl d)
             else politician_tbl d @ [self])\<rparr>"
  let ?d' = "if nn (pol_name self) \<in> set (alternate_names d (pol_id self)) then ?saved
             else ?saved\<lparr>politicianinfo_tbl := politicianinfo_tbl d @ [?row]\<rparr>"
  have run: "Politician_save nn d self = (Inr (), ?d')"
    by (simp add: Politician_save_def Let_def add_alternate_name_result)
  have tbl: "politicianinfo_tbl ?d' =
         (if nn (pol_name self) \<in> set (alternate_names d (pol_id self)) then politicianinfo_tbl d
          else politicianinfo_tbl d @ [?row])"
    by simp
  have held: "nn (pol_name self) \<in> set (alternate_names ?d' (pol_id self))"
  proof (cases "nn (pol_name self) \<in> set (alternate_names d (pol_id self))")
    case True
    then show ?thesis by simp
  next
    case False
    then show ?thesis by (simp add: alternate_names_def politicianinfo_set_def)
  qed
  then have row: "?row \<in> set (alternate_name_rows nn ?d' (pol_name self))"
    by (rule alternate_names_holds_row)
  then have found: "pol_id self \<in> set (filter_by_name nn ?d' (pol_name self))"
    unfolding filter_by_name_def by force
  have stage: "PoliticianManager_get_by_name nn ?d' (pol_name self) None None None None
      saveAlternate strictMatch =
        (if filter_by_name nn ?d' (pol_name self) = [pol_id self] then Inr (pol_id self)
         else Inl Politician_MultipleObjectsReturned, ?d')"
  proof (cases "alternate_name_rows nn ?d' (pol_name self)")
    case Nil
    with row show ?thesis by simp
  next
    case (Cons p ps)
    show ?thesis
    proof (cases ps)
      case Nil
      with Cons row have "p = ?row" by simp
      then have "pi_politician p = pol_id self" by simp
      with Cons Nil show ?thesis
        by (simp add: PoliticianManager_get_by_name_def alternate_name_stage_def
            filter_by_name_def)
    next
      case (Cons q qs)
      with \<open>alternate_name_rows nn ?d' (pol_name self) = p # ps\<close> show ?thesis
        by (simp add: PoliticianManager_get_by_name_def alternate_name_stage_def
            filter_by_name_def)
    qed
  qed
  have before: "nn (pol_name self) \<in> set (alternate_names d (pol_id self)) \<longleftrightarrow>
                  0 < count_list (politicianinfo_tbl d) ?row"
    using count_list_0_iff [of "politicianinfo_tbl d" ?row]
    unfolding alternate_names_row_iff by arith
  have count: "count_list (politicianinfo_tbl ?d') ?row =
      max 1 (count_list (politicianinfo_tbl d) ?row)"
    using before by (auto simp: tbl)
  show ?thesis
    using run held found stage tbl count by blast
qed

text \<open>
  A new politician, Thomas Mulcair (with two spaces in the display name), is saved and
  then found by \<^verbatim>\<open>filter_by_name\<close> and by \<^verbatim>\<open>get_by_name\<close> under the display name.
\<close>

theorem save_makes_display_name_findable_witness:
  "Politician_save normalizeName (richmond_member [])
      \<lparr>pol_id = 3, pol_name = ''Thomas  Mulcair'', pol_name_given = ''Thomas'',
        pol_name_family = ''Mulcair''\<rparr> =
     (Inr (),
      (richmond_member
         [\<lparr>pi_politician = 3, pi_schema = ''alternate_name'', pi_value = ''thomas mulcair''\<rparr>])
       \<lparr>politician_tbl := politician_tbl (richmond_member []) @
         [\<lparr>pol_id = 3, pol_name = ''Thomas  Mulcair'', pol_name_given = ''Thomas'',
           pol_name_family = ''Mulcair''\<rparr>]\<rparr>)
   \<and> filter_by_name normalizeName
        ((richmond_member
         [\<lparr>pi_politician = 3, pi_schema = ''alternate_name'', pi_value = ''thomas mulcair''\<rparr>])
       \<lparr>politician_tbl := politician_tbl (richmond_member []) @
         [\<lparr>pol_id = 3, pol_name = ''Thomas  Mulcair'', pol_name_given = ''Thomas'',
           pol_name_family = ''Mulcair''\<rparr>]\<rparr>) ''Thomas  Mulcair'' = [3]
   \<and> PoliticianManager_get_by_name normalizeName
        ((richmond_member
         [\<lparr>pi_politician = 3, pi_schema = ''alternate_name'', pi_value = ''thomas mulcair''\<rparr>])
       \<lparr>politician_tbl := politician_tbl (richmond_member []) @
         [\<lparr>pol_id = 3, pol_name = ''Thomas  Mulcair'', pol_name_given = ''Thomas'',
           pol_name_family = ''Mulcair''\<rparr>]\<rparr>) ''Thomas  Mulcair'' None None None None True False
      = (Inr 3,
        (richmond_member
         [\<lparr>pi_politician = 3, pi_schema = ''alternate_name'', pi_value = ''thomas mulcair''\<rparr>])
       \<lparr>politician_tbl := politician_tbl (richmond_member []) @
         [\<lparr>pol_id = 3, pol_name = ''Thomas  Mulcair'', pol_name_given = ''Thomas'',
           pol_name_family = ''Mulcair''\<rparr>]\<rparr>)"
proof -
  let ?self = "\<lparr>pol_id = 3, pol_name = ''Thomas  Mulcair'', pol_name_given = ''Thomas'',
        pol_name_family = ''Mulcair''\<rparr>"
  let ?d' = "(richmond_member
         [\<lparr>pi_politician = 3, pi_schema = ''alternate_name'', pi_value = ''thomas mulcair''\<rparr>])
       \<lparr>politician_tbl := politician_tbl (richmond_member []) @ [?self]\<rparr>"
  have run: "Politician_save normalizeName (richmond_member []) ?self = (Inr (), ?d')"
    by code_simp
  have sole: "filter_by_name normalizeName ?d' ''Thomas  Mulcair'' = [3]"
    by code_simp
  from save_makes_display_name_findable [of normalizeName "richmond_member []" ?self True False]
  obtain d' where "Politician_save normalizeName (richmond_member []) ?self = (Inr (), d')"
    and "PoliticianManager_get_by_name normalizeName d' (pol_name ?self) None None None None
          True False =
        (if filter_by_name normalizeName d' (pol_name ?self) = [pol_id ?self]
         then Inr (pol_id ?self) else Inl Politician_MultipleObjectsReturned, d')"
    by blast
  with run have "PoliticianManager_get_by_name normalizeName ?d' ''Thomas  Mulcair'' None None
      None None True False =
        (if filter_by_name normalizeName ?d' ''Thomas  Mulcair'' = [3]
         then Inr 3 else Inl Politician_MultipleObjectsReturned, ?d')"
    by simp
  then have "PoliticianManager_get_by_name normalizeName ?d' ''Thomas  Mulcair'' None None
      None None True False = (Inr 3, ?d')"
    unfolding sole by simp
  with run sole show ?thesis by (intro conjI)
qed

section \<open>Properties of \<^verbatim>\<open>Party.add_alternate_name\<close>\<close>

text \<open>
  C4. The store holds at most one row for the key, and a first
  \<^verbatim>\<open>add_alternate_name\<close> of a name for the party \<open>t1\<close> succeeds. Then adding the same
  name for another party \<open>t2\<close> raises and changes nothing, the rows of the key still
  give \<open>t1\<close> and nothing else, and adding the name for \<open>t1\<close> again succeeds and leaves
  that one row. The schema is \<^verbatim>\<open>party_names\<close>, the only one this file inserts into
  \<^verbatim>\<open>InternalXref\<close>.
\<close>

theorem party_name_conflict:
  assumes first: "Party_add_alternate_name d t1 name = (Inr (), d1)"
    and single: "length (party_names d (lower (strip name))) \<le> 1"
    and other: "t1 \<noteq> t2"
  shows "Party_add_alternate_name d1 t2 name = (Inl Exception_party_name_taken, d1)
       \<and> map x_target_id (party_names d1 (lower (strip name))) = [t1]
       \<and> Party_add_alternate_name d1 t1 name = (Inr (), d1)"
proof (cases "party_names d (lower (strip name))")
  case Nil
  with first have d1: "d1 = d\<lparr>internalxref_tbl := internalxref_tbl d @
             [\<lparr>x_schema = ''party_names'', x_text_value = lower (strip name), x_int_value = None,
               x_target_id = t1\<rparr>]\<rparr>"
    by (simp add: Party_add_alternate_name_def)
  have "party_names d1 (lower (strip name)) =
      [\<lparr>x_schema = ''party_names'', x_text_value = lower (strip name), x_int_value = None,
               x_target_id = t1\<rparr>]"
    using Nil unfolding d1 by (simp add: party_names_def)
  with other show ?thesis by (simp add: Party_add_alternate_name_def)
next
  case (Cons x xs)
  with single have xs: "xs = []" by simp
  from first Cons have same: "x_target_id x = t1" and d1: "d1 = d"
    by (auto simp: Party_add_alternate_name_def split: if_splits)
  from Cons xs same other show ?thesis
    unfolding d1 by (simp add: Party_add_alternate_name_def)
qed

text \<open>
  The name Liberal, with spaces around it, in an empty store.
\<close>

theorem party_name_conflict_witness:
  "Party_add_alternate_name
      \<lparr>internalxref_tbl = [], politician_tbl = [], politicianinfo_tbl = [],
        electedmember_tbl = [], riding_tbl = []\<rparr> 1 '' Liberal '' =
     (Inr (),
      \<lparr>internalxref_tbl = [\<lparr>x_schema = ''party_names'', x_text_value = ''liberal'',
          x_int_value = None, x_target_id = 1\<rparr>],
        politician_tbl = [], politicianinfo_tbl = [], electedmember_tbl = [], riding_tbl = []\<rparr>)
   \<and> length (party_names
        \<lparr>internalxref_tbl = [], politician_tbl = [], politicianinfo_tbl = [],
          electedmember_tbl = [], riding_tbl = []\<rparr> (lower (strip '' Liberal ''))) \<le> 1
   \<and> (1::nat) \<noteq> 2
   \<and> Party_add_alternate_name
        \<lparr>internalxref_tbl = [\<lparr>x_schema = ''party_names'', x_text_value = ''liberal'',
            x_int_value = None, x_target_id = 1\<rparr>],
          politician_tbl = [], politicianinfo_tbl = [], electedmember_tbl = [], riding_tbl = []\<rparr>
        2 '' Liberal '' =
      (Inl Exception_party_name_taken,
        \<lparr>internalxref_tbl = [\<lparr>x_schema = ''party_names'', x_text_value = ''liberal'',
            x_int_value = None, x_target_id = 1\<rparr>],
          politician_tbl = [], politicianinfo_tbl = [], electedmember_tbl = [], riding_tbl = []\<rparr>)"
proof -
  let ?d = "\<lparr>internalxref_tbl = [], politician_tbl = [], politicianinfo_tbl = [],
        electedmember_tbl = [], riding_tbl = []\<rparr>"
  let ?d1 = "\<lparr>internalxref_tbl = [\<lparr>x_schema = ''party_names'', x_text_value = ''liberal'',
          x_int_value = None, x_target_id = 1\<rparr>],
        politician_tbl = [], politicianinfo_tbl = [], electedmember_tbl = [], riding_tbl = []\<rparr>"
  have key: "lower (strip '' Liberal '') = ''liberal''"
    by (simp add: lower_def lower_char_def strip_def isspace_def)
  have first: "Party_add_alternate_name ?d 1 '' Liberal '' = (Inr (), ?d1)"
    by (simp add: Party_add_alternate_name_def key party_names_def)
  have single: "length (party_names ?d (lower (strip '' Liberal ''))) \<le> 1"
    by (simp add: party_names_def)
  have other: "(1::nat) \<noteq> 2" by simp
  show ?thesis
    using first single other party_name_conflict [OF first single other] by simp
qed

section \<open>Properties of \<^verbatim>\<open>RidingManager.get_by_name\<close>\<close>

lemma slug_em_dash:
  "slugify Richmond_Arthabaska = ''richmond-arthabaska''"
  by code_simp

lemma slug_arthabasca: "slugify ''Richmond-Arthabasca'' = ''richmond-arthabasca''"
  by code_simp

lemma slug_arthabatca: "slugify ''Richmond-Arthabatca'' = ''richmond-arthabatca''"
  by code_simp

lemma fix_arthabasca: "map_of FIX_RIDING ''richmond-arthabasca'' = Some ''richmond-arthabaska''"
  by code_simp

lemma fix_arthabaska: "map_of FIX_RIDING ''richmond-arthabaska'' = None"
  by code_simp

lemma fix_arthabatca: "map_of FIX_RIDING ''richmond-arthabatca'' = None"
  by code_simp

text \<open>
  The spelling Richmond-Arthabatca is not a key of \<^verbatim>\<open>FIX_RIDING\<close>: in a table that
  holds the riding, the name with the em dash is found and that spelling raises
  \<^verbatim>\<open>Riding.DoesNotExist\<close>.
\<close>

theorem richmond_arthabatca_not_corrected:
  "RidingManager_get_by_name slugify richmond_only
      Richmond_Arthabaska = Inr 1
   \<and> RidingManager_get_by_name slugify richmond_only ''Richmond-Arthabatca'' =
       Inl Riding_DoesNotExist"
  by (simp add: RidingManager_get_by_name_def Let_def slug_em_dash slug_arthabatca
      fix_arthabaska fix_arthabatca richmond_only_def)

text \<open>
  C3, as amended. For the misspelling that \<^verbatim>\<open>FIX_RIDING\<close> holds,
  \<^verbatim>\<open>richmond-arthabasca\<close>: a name with that slug and a name with the slug
  \<^verbatim>\<open>richmond-arthabaska\<close> both give the one riding of slug \<^verbatim>\<open>richmond-arthabaska\<close>,
  for every slug function and every table with that riding.
\<close>

theorem richmond_arthabasca_corrected:
  assumes "sl misspelt = ''richmond-arthabasca''" and "sl canonical = ''richmond-arthabaska''"
    and "filter (\<lambda>r. riding_slug r = ''richmond-arthabaska'') (riding_tbl d) = [r]"
  shows "RidingManager_get_by_name sl d misspelt = Inr (riding_id r)
       \<and> RidingManager_get_by_name sl d canonical = Inr (riding_id r)"
  using assms by (simp add: RidingManager_get_by_name_def Let_def fix_arthabasca fix_arthabaska)

text \<open>
  Richmond-Arthabasca and the name with the em dash, with the slug function modelled
  above.
\<close>

theorem richmond_arthabasca_corrected_witness:
  "slugify ''Richmond-Arthabasca'' = ''richmond-arthabasca''
   \<and> slugify Richmond_Arthabaska = ''richmond-arthabaska''
   \<and> filter (\<lambda>r. riding_slug r = ''richmond-arthabaska'') (riding_tbl richmond_only) =
       [\<lparr>riding_id = 1, riding_slug = ''richmond-arthabaska''\<rparr>]
   \<and> RidingManager_get_by_name slugify richmond_only ''Richmond-Arthabasca'' = Inr 1
   \<and> RidingManager_get_by_name slugify richmond_only
        Richmond_Arthabaska = Inr 1"
proof -
  have tbl: "filter (\<lambda>r. riding_slug r = ''richmond-arthabaska'') (riding_tbl richmond_only) =
       [\<lparr>riding_id = 1, riding_slug = ''richmond-arthabaska''\<rparr>]"
    by (simp add: richmond_only_def)
  show ?thesis
    using slug_arthabasca slug_em_dash tbl
      richmond_arthabasca_corrected [where sl = slugify and misspelt = "''Richmond-Arthabasca''"
        and canonical = Richmond_Arthabaska and d = richmond_only
        and r = "\<lparr>riding_id = 1, riding_slug = ''richmond-arthabaska''\<rparr>"]
    by simp
qed

section \<open>Resolution by an ourcommons.ca identifier\<close>

text \<open>
  Resolving a name writes at most one row, of schema \<^verbatim>\<open>alternate_name\<close>; the rows of
  the other schemas are as before.
\<close>

lemma get_by_name_db:
  assumes "PoliticianManager_get_by_name nn d name session riding election party saveAlternate
             strictMatch = (r, d')"
  shows "d' = d \<or> (\<exists>p v. d' = d\<lparr>politicianinfo_tbl := politicianinfo_tbl d @
           [\<lparr>pi_politician = p, pi_schema = ''alternate_name'', pi_value = v\<rparr>]\<rparr>)"
  using assms
  by (auto simp: PoliticianManager_get_by_name_def last_name_stage_def add_alternate_name_result
      split: outcome.splits option.splits if_splits list.splits)

lemma pol_from_xml_doc_db:
  assumes "pol_from_xml_doc nn sl d xml_doc session riding_name = (r, d')"
  shows "d' = d \<or> (\<exists>p v. d' = d\<lparr>politicianinfo_tbl := politicianinfo_tbl d @
           [\<lparr>pi_politician = p, pi_schema = ''alternate_name'', pi_value = v\<rparr>]\<rparr>)"
proof (cases "\<exists>polname riding. PoliticianManager_get_by_name nn d polname session
          (Some riding) None None True False = (r, d')")
  case True
  then obtain polname riding where
    "PoliticianManager_get_by_name nn d polname session (Some riding) None None True False = (r, d')"
    by auto
  then show ?thesis by (rule get_by_name_db)
next
  case False
  with assms have "d' = d"
    by (auto simp: pol_from_xml_doc_def Let_def split: option.splits sum.splits if_splits)
  then show ?thesis by simp
qed

lemma get_pol_from_ourcommons_url_db:
  assumes "get_pol_from_ourcommons_url http nn sl d lookup_url session riding_name = ((r, d'), urls)"
  shows "(d' = d \<or> (\<exists>p v. d' = d\<lparr>politicianinfo_tbl := politicianinfo_tbl d @
           [\<lparr>pi_politician = p, pi_schema = ''alternate_name'', pi_value = v\<rparr>]\<rparr>))
         \<and> urls \<noteq> []"
proof (cases "\<exists>xml_doc r0. pol_from_xml_doc nn sl d xml_doc session riding_name = (r0, d')")
  case True
  then obtain xml_doc r0 where "pol_from_xml_doc nn sl d xml_doc session riding_name = (r0, d')"
    by auto
  then have "d' = d \<or> (\<exists>p v. d' = d\<lparr>politicianinfo_tbl := politicianinfo_tbl d @
           [\<lparr>pi_politician = p, pi_schema = ''alternate_name'', pi_value = v\<rparr>]\<rparr>)"
    by (rule pol_from_xml_doc_db)
  moreover from assms have "urls \<noteq> []"
    by (auto simp: get_pol_from_ourcommons_url_def
        split: http_response.splits option.splits if_splits prod.splits sum.splits)
  ultimately show ?thesis by simp
next
  case False
  with assms show ?thesis
    by (auto simp: get_pol_from_ourcommons_url_def
        split: http_response.splits option.splits if_splits prod.splits sum.splits)
qed

lemma other_schema_rows:
  assumes "key \<noteq> ''alternate_name''"
    and "d' = d \<or> (\<exists>p v. d' = d\<lparr>politicianinfo_tbl := politicianinfo_tbl d @
           [\<lparr>pi_politician = p, pi_schema = ''alternate_name'', pi_value = v\<rparr>]\<rparr>)"
  shows "politicianinfo_by_value d' key n = politicianinfo_by_value d key n"
    and "politicianinfo_set d' pol key = politicianinfo_set d pol key"
  using assms by (auto simp: politicianinfo_by_value_def politicianinfo_set_def)

lemma filter_filter_empty: "filter P xs = [] \<Longrightarrow> filter P (filter Q xs) = []"
  by (induction xs) (auto split: if_splits)

lemma set_info_unbound_value:
  assumes unbound: "politicianinfo_by_value d key n = []"
    and run: "Politician_set_info d pol key (unicode_nat n) False = (r, d2)"
  shows "(r = Inl ValueError \<and> d2 = d \<and> length (politicianinfo_set d pol key) = 1)
       \<or> (r = Inr () \<and> length (politicianinfo_set d pol key) \<noteq> 1 \<and>
          politicianinfo_by_value d2 key n =
            [\<lparr>pi_politician = pol, pi_schema = key, pi_value = unicode_nat n\<rparr>])"
proof (cases "politicianinfo_set d pol key")
  case Nil
  with run unbound show ?thesis
    by (auto simp: Politician_set_info_def politicianinfo_by_value_def)
next
  case (Cons a as)
  note outer = Cons
  show ?thesis
  proof (cases as)
    case Nil
    with outer run show ?thesis by (auto simp: Politician_set_info_def)
  next
    case (Cons b bs)
    from unbound have "filter (\<lambda>i. pi_schema i = key \<and> pi_value i = unicode_nat n)
        (filter (\<lambda>i. \<not> (pi_politician i = pol \<and> pi_schema i = key)) (politicianinfo_tbl d)) = []"
      unfolding politicianinfo_by_value_def by (rule filter_filter_empty)
    with outer Cons run show ?thesis
      by (auto simp: Politician_set_info_def politicianinfo_by_value_def)
  qed
qed

text \<open>
  C8. When the first request for an identifier that is not stored is answered with
  an error status (400 to 599, the statuses for which \<^verbatim>\<open>raise_for_status\<close> raises),
  \<^verbatim>\<open>get_by_parl_mp_id\<close> and \<^verbatim>\<open>get_by_parl_affil_id\<close> raise
  \<^verbatim>\<open>Politician.DoesNotExist\<close>, the database is unchanged, and that request is the only
  one made.
\<close>

theorem http_error_is_not_found:
  assumes "400 \<le> status" and "status < 600"
  shows "(http (POL_PERSON_ID_LOOKUP_URL parlid) = Response status final_url body \<and>
          politicianinfo_by_value d ''parl_mp_id'' parlid = []
          \<longrightarrow> get_by_parl_mp_id http nn sl d parlid session riding_name =
                ((Inl Politician_DoesNotExist, d), [POL_PERSON_ID_LOOKUP_URL parlid]))
       \<and> (http (POL_AFFIL_ID_LOOKUP_URL parlid) = Response status final_url body \<and>
          politicianinfo_by_value d ''parl_affil_id'' parlid = []
          \<longrightarrow> get_by_parl_affil_id http nn sl d parlid session riding_name =
                ((Inl Politician_DoesNotExist, d), [POL_AFFIL_ID_LOOKUP_URL parlid]))"
  using assms
  by (simp add: get_by_parl_mp_id_def get_by_parl_affil_id_def get_pol_from_ourcommons_url_def
      raise_for_status_def)

text \<open>
  The identifier 8, which the directory answers with 404.
\<close>

theorem http_error_is_not_found_witness:
  "(400::nat) \<le> 404 \<and> (404::nat) < 600
   \<and> ourcommons (POL_PERSON_ID_LOOKUP_URL 8) = Response 404 (POL_PERSON_ID_LOOKUP_URL 8) None
   \<and> politicianinfo_by_value (richmond_member []) ''parl_mp_id'' 8 = []
   \<and> get_by_parl_mp_id ourcommons normalizeName slugify (richmond_member []) 8 None None =
       ((Inl Politician_DoesNotExist, richmond_member []), [POL_PERSON_ID_LOOKUP_URL 8])
   \<and> ourcommons (POL_AFFIL_ID_LOOKUP_URL 8) = Response 404 (POL_AFFIL_ID_LOOKUP_URL 8) None
   \<and> politicianinfo_by_value (richmond_member []) ''parl_affil_id'' 8 = []
   \<and> get_by_parl_affil_id ourcommons normalizeName slugify (richmond_member []) 8 None None =
       ((Inl Politician_DoesNotExist, richmond_member []), [POL_AFFIL_ID_LOOKUP_URL 8])"
proof -
  have lo: "(400::nat) \<le> 404" and hi: "(404::nat) < 600" by simp_all
  have p: "ourcommons (POL_PERSON_ID_LOOKUP_URL 8) =
      Response 404 (POL_PERSON_ID_LOOKUP_URL 8) None"
    by code_simp
  have a: "ourcommons (POL_AFFIL_ID_LOOKUP_URL 8) =
      Response 404 (POL_AFFIL_ID_LOOKUP_URL 8) None"
    by code_simp
  have np: "politicianinfo_by_value (richmond_member []) ''parl_mp_id'' 8 = []"
    by code_simp
  have na: "politicianinfo_by_value (richmond_member []) ''parl_affil_id'' 8 = []"
    by code_simp
  have P: "get_by_parl_mp_id ourcommons normalizeName slugify (richmond_member []) 8 None None =
       ((Inl Politician_DoesNotExist, richmond_member []), [POL_PERSON_ID_LOOKUP_URL 8])"
    by (rule http_error_is_not_found [OF lo hi, where http = ourcommons, THEN conjunct1, THEN mp,
        OF conjI [OF p np]])
  have A: "get_by_parl_affil_id ourcommons normalizeName slugify (richmond_member []) 8 None None =
       ((Inl Politician_DoesNotExist, richmond_member []), [POL_AFFIL_ID_LOOKUP_URL 8])"
    by (rule http_error_is_not_found [OF lo hi, where http = ourcommons, THEN conjunct2, THEN mp,
        OF conjI [OF a na]])
  show ?thesis
    by (intro conjI lo hi p np P a na A)
qed

lemma set_info_rows_after:
  assumes "Politician_set_info d pol key v False = (Inr (), d2)"
  shows "politicianinfo_set d2 pol key = [\<lparr>pi_politician = pol, pi_schema = key, pi_value = v\<rparr>]"
proof (cases "politicianinfo_set d pol key")
  case Nil
  with assms have "d2 = d\<lparr>politicianinfo_tbl := politicianinfo_tbl d @
      [\<lparr>pi_politician = pol, pi_schema = key, pi_value = v\<rparr>]\<rparr>"
    by (simp add: Politician_set_info_def)
  with Nil show ?thesis by (simp add: politicianinfo_set_def)
next
  case (Cons a as)
  with assms obtain b bs where "as = b # bs"
    by (cases as) (auto simp: Politician_set_info_def)
  with Cons assms have "d2 = d\<lparr>politicianinfo_tbl :=
      filter (\<lambda>i. \<not> (pi_politician i = pol \<and> pi_schema i = key)) (politicianinfo_tbl d) @
      [\<lparr>pi_politician = pol, pi_schema = key, pi_value = v\<rparr>]\<rparr>"
    by (simp add: Politician_set_info_def)
  then show ?thesis by (simp add: politicianinfo_set_def)
qed

text \<open>
  A politician who holds two person identifiers is resolved for a third: the call
  succeeds, and the two rows are deleted and replaced by the new one.
\<close>

theorem person_id_rows_replaced:
  "get_by_parl_mp_id ourcommons normalizeName slugify
      (richmond_member
        [\<lparr>pi_politician = 1, pi_schema = ''parl_mp_id'', pi_value = ''7''\<rparr>,
         \<lparr>pi_politician = 1, pi_schema = ''parl_mp_id'', pi_value = ''8''\<rparr>]) 9 None None =
     ((Inr 1, richmond_member
         [\<lparr>pi_politician = 1, pi_schema = ''parl_mp_id'', pi_value = ''9''\<rparr>]),
      [POL_PERSON_ID_LOOKUP_URL 9, ''https://www.ourcommons.ca/Members/en/john-smith(9)/xml''])"
  by code_simp

text \<open>
  C2, as amended. For every run of \<^verbatim>\<open>get_by_parl_mp_id\<close>: the rows that bind the
  identifier before the call bind it after the call; when the call returns a
  politician, the identifier is bound to that politician and to no other; the directory
  is asked only when no row binds the identifier, and an identifier bound by one row is
  answered with its holder, without a request and without an error. So the write never
  meets a binding to another politician. The write is
  \<^verbatim>\<open>set_info(..., overwrite=False)\<close>: when the politician the directory resolves holds
  exactly one \<^verbatim>\<open>parl_mp_id\<close> row the call raises \<^verbatim>\<open>ValueError\<close> and that row stays;
  otherwise it succeeds and the new identifier is the only \<^verbatim>\<open>parl_mp_id\<close> row of the
  politician.
\<close>

theorem person_id_binding_and_write:
  assumes run: "get_by_parl_mp_id http nn sl d parlid session riding_name = ((r, d'), urls)"
  shows "set (politicianinfo_by_value d ''parl_mp_id'' parlid)
           \<subseteq> set (politicianinfo_by_value d' ''parl_mp_id'' parlid)
       \<and> (\<forall>pol. r = Inr pol \<longrightarrow>
            pi_politician ` set (politicianinfo_by_value d' ''parl_mp_id'' parlid) = {pol})
       \<and> (urls \<noteq> [] \<longrightarrow> politicianinfo_by_value d ''parl_mp_id'' parlid = [])
       \<and> (\<forall>info. politicianinfo_by_value d ''parl_mp_id'' parlid = [info]
            \<longrightarrow> r = Inr (pi_politician info) \<and> d' = d \<and> urls = [])
       \<and> (\<forall>pol d1 us.
            politicianinfo_by_value d ''parl_mp_id'' parlid = [] \<and>
            get_pol_from_ourcommons_url http nn sl d (POL_PERSON_ID_LOOKUP_URL parlid) session
              riding_name = ((Inr (pol, parlid), d1), us)
            \<longrightarrow> (if length (politicianinfo_set d pol ''parl_mp_id'') = 1
                 then r = Inl ValueError \<and> d' = d1 \<and>
                   politicianinfo_set d' pol ''parl_mp_id'' = politicianinfo_set d pol ''parl_mp_id''
                 else r = Inr pol \<and>
                   politicianinfo_set d' pol ''parl_mp_id'' =
                     [\<lparr>pi_politician = pol, pi_schema = ''parl_mp_id'',
                       pi_value = unicode_nat parlid\<rparr>]))"
proof (cases "politicianinfo_by_value d ''parl_mp_id'' parlid")
  case (Cons a as)
  with run show ?thesis
    by (cases as) (auto simp: get_by_parl_mp_id_def)
next
  case Nil
  obtain g d1 us where pol: "get_pol_from_ourcommons_url http nn sl d
      (POL_PERSON_ID_LOOKUP_URL parlid) session riding_name = ((g, d1), us)"
    by (metis prod.exhaust)
  have key: "''parl_mp_id'' \<noteq> ''alternate_name''" by simp
  from get_pol_from_ourcommons_url_db [OF pol]
  have eff: "d1 = d \<or> (\<exists>p v. d1 = d\<lparr>politicianinfo_tbl := politicianinfo_tbl d @
           [\<lparr>pi_politician = p, pi_schema = ''alternate_name'', pi_value = v\<rparr>]\<rparr>)"
    and us: "us \<noteq> []" by simp_all
  have unbound1: "politicianinfo_by_value d1 ''parl_mp_id'' parlid = []"
    using other_schema_rows(1) [OF key eff] Nil by simp
  have rows1: "\<And>p. politicianinfo_set d1 p ''parl_mp_id'' = politicianinfo_set d p ''parl_mp_id''"
    using other_schema_rows(2) [OF key eff] by simp
  show ?thesis
  proof (cases g)
    case (Inl e)
    with run Nil pol unbound1 show ?thesis by (auto simp: get_by_parl_mp_id_def)
  next
    case (Inr px)
    obtain p x where px: "px = (p, x)" by (cases px)
    show ?thesis
    proof (cases "parlid = x")
      case False
      with run Nil pol Inr px unbound1 show ?thesis by (auto simp: get_by_parl_mp_id_def)
    next
      case True
      obtain r2 d2 where si: "Politician_set_info d1 p ''parl_mp_id'' (unicode_nat parlid) False
          = (r2, d2)" by (metis prod.exhaust)
      from set_info_unbound_value [OF unbound1 si]
      show ?thesis
      proof
        assume "r2 = Inl ValueError \<and> d2 = d1 \<and> length (politicianinfo_set d1 p ''parl_mp_id'') = 1"
        with run Nil pol Inr px True si unbound1 rows1 show ?thesis
          by (auto simp: get_by_parl_mp_id_def)
      next
        assume a: "r2 = Inr () \<and> length (politicianinfo_set d1 p ''parl_mp_id'') \<noteq> 1 \<and>
          politicianinfo_by_value d2 ''parl_mp_id'' parlid =
            [\<lparr>pi_politician = p, pi_schema = ''parl_mp_id'', pi_value = unicode_nat parlid\<rparr>]"
        with si have "politicianinfo_set d2 p ''parl_mp_id'' =
            [\<lparr>pi_politician = p, pi_schema = ''parl_mp_id'', pi_value = unicode_nat parlid\<rparr>]"
          by (simp add: set_info_rows_after)
        with a run Nil pol Inr px True si rows1 us show ?thesis
          by (auto simp: get_by_parl_mp_id_def)
      qed
    qed
  qed
qed

text \<open>
  The identifier 9 is resolved to John Smith and stored; when John Smith holds the
  identifier 7 already, the call raises and 7 stays; when 9 is stored, it is answered
  without a request.
\<close>

theorem person_id_binding_and_write_witness:
  "get_by_parl_mp_id ourcommons normalizeName slugify (richmond_member []) 9 None None =
     ((Inr 1, richmond_member
         [\<lparr>pi_politician = 1, pi_schema = ''parl_mp_id'', pi_value = ''9''\<rparr>]),
      [POL_PERSON_ID_LOOKUP_URL 9, ''https://www.ourcommons.ca/Members/en/john-smith(9)/xml''])
   \<and> pi_politician ` set (politicianinfo_by_value (richmond_member
         [\<lparr>pi_politician = 1, pi_schema = ''parl_mp_id'', pi_value = ''9''\<rparr>])
         ''parl_mp_id'' 9) = {1}
   \<and> politicianinfo_by_value (richmond_member []) ''parl_mp_id'' 9 = []
   \<and> get_by_parl_mp_id ourcommons normalizeName slugify
        (richmond_member [\<lparr>pi_politician = 1, pi_schema = ''parl_mp_id'', pi_value = ''7''\<rparr>])
        9 None None =
      ((Inl ValueError,
        richmond_member [\<lparr>pi_politician = 1, pi_schema = ''parl_mp_id'', pi_value = ''7''\<rparr>]),
       [POL_PERSON_ID_LOOKUP_URL 9, ''https://www.ourcommons.ca/Members/en/john-smith(9)/xml''])
   \<and> politicianinfo_set
        (richmond_member [\<lparr>pi_politician = 1, pi_schema = ''parl_mp_id'', pi_value = ''7''\<rparr>])
        1 ''parl_mp_id'' = [\<lparr>pi_politician = 1, pi_schema = ''parl_mp_id'', pi_value = ''7''\<rparr>]
   \<and> get_by_parl_mp_id ourcommons normalizeName slugify
        (richmond_member [\<lparr>pi_politician = 1, pi_schema = ''parl_mp_id'', pi_value = ''9''\<rparr>])
        9 (Some ''41-1'') None =
      ((Inr 1,
        richmond_member [\<lparr>pi_politician = 1, pi_schema = ''parl_mp_id'', pi_value = ''9''\<rparr>]),
       [])"
proof -
  let ?urls = "[POL_PERSON_ID_LOOKUP_URL 9,
                ''https://www.ourcommons.ca/Members/en/john-smith(9)/xml'']"
  let ?r7 = "\<lparr>pi_politician = 1, pi_schema = ''parl_mp_id'', pi_value = ''7''\<rparr>"
  let ?r9 = "\<lparr>pi_politician = 1, pi_schema = ''parl_mp_id'', pi_value = ''9''\<rparr>"
  let ?d7 = "richmond_member [?r7]"
  let ?d9 = "richmond_member [?r9]"
  have run: "get_by_parl_mp_id ourcommons normalizeName slugify (richmond_member []) 9 None None =
      ((Inr 1, ?d9), ?urls)"
    by code_simp
  have urls: "?urls \<noteq> []" by simp
  note T = person_id_binding_and_write [OF run]
  have bound: "pi_politician ` set (politicianinfo_by_value ?d9 ''parl_mp_id'' 9) = {1}"
    using T [THEN conjunct2, THEN conjunct1] by simp
  have unbound: "politicianinfo_by_value (richmond_member []) ''parl_mp_id'' 9 = []"
    using T [THEN conjunct2, THEN conjunct2, THEN conjunct1] urls by simp
  have run7: "get_by_parl_mp_id ourcommons normalizeName slugify ?d7 9 None None =
      ((Inl ValueError, ?d7), ?urls)"
    by code_simp
  have unbound7: "politicianinfo_by_value ?d7 ''parl_mp_id'' 9 = []"
    by code_simp
  have pol7: "get_pol_from_ourcommons_url ourcommons normalizeName slugify ?d7
      (POL_PERSON_ID_LOOKUP_URL 9) None None = ((Inr (1, 9), ?d7), ?urls)"
    by code_simp
  have rows7: "politicianinfo_set ?d7 1 ''parl_mp_id'' = [?r7]"
    by code_simp
  have one7: "length (politicianinfo_set ?d7 1 ''parl_mp_id'') = 1"
    unfolding rows7 by simp
  from person_id_binding_and_write [OF run7, THEN conjunct2, THEN conjunct2, THEN conjunct2,
      THEN conjunct2, THEN spec, THEN spec, THEN spec, THEN mp, OF conjI [OF unbound7 pol7]]
  have kept: "politicianinfo_set ?d7 1 ''parl_mp_id'' = [?r7]"
    using one7 rows7 by simp
  have held9: "politicianinfo_by_value ?d9 ''parl_mp_id'' 9 = [?r9]"
    by code_simp
  obtain r d' us where run9: "get_by_parl_mp_id ourcommons normalizeName slugify ?d9 9
      (Some ''41-1'') None = ((r, d'), us)"
    by (metis prod.exhaust)
  from person_id_binding_and_write [OF run9, THEN conjunct2, THEN conjunct2, THEN conjunct2,
      THEN conjunct1, THEN spec, THEN mp, OF held9]
  have "r = Inr 1 \<and> d' = ?d9 \<and> us = []" by simp
  with run9 have fast: "get_by_parl_mp_id ourcommons normalizeName slugify ?d9 9
      (Some ''41-1'') None = ((Inr 1, ?d9), [])" by simp
  show ?thesis
    by (intro conjI run bound unbound run7 kept fast)
qed

end
